theory Spec2Isabelle
  imports Complex_Main
begin

section \<open>PPO trainer: the model container and the worker\<close>

text \<open>
  A shallow embedding of \<^verbatim>\<open>user_define/model.py\<close> (class \<^verbatim>\<open>ModelWrapper\<close> with the
  networks \<^verbatim>\<open>Actor\<close> and \<^verbatim>\<open>Critic\<close>) and of \<^verbatim>\<open>Trainer/worker.py\<close> (class \<^verbatim>\<open>Worker\<close>).
  Numbers are real numbers: the rounding of the 32-bit and 64-bit floating-point formats
  is not part of the embedding, and the one place where the source would go on with a
  not-a-number (the mean of an empty tensor in \<^verbatim>\<open>train_model\<close>) is an error value here.
  Arrays of rank one are lists, arrays of rank two are lists of rows. Exceptions are values
  of the type \<open>error\<close>; a function that can raise returns \<open>error + 'a\<close>.
\<close>

subsection \<open>Errors\<close>

datatype error =
    FileNotFoundError
  | KeyError
  | RuntimeError
  | ValueError
  | IndexError
  | NotANumber

subsection \<open>Tensors, parameters, layers\<close>

record tensor =
  shape :: "nat list"
  vals :: "real list"

text \<open>A parameter of a network: its data and its gradient buffer (\<^verbatim>\<open>.grad\<close>).\<close>

record parameter =
  data :: tensor
  grad :: "real list option"

text \<open>\<^verbatim>\<open>nn.Linear(in, out)\<close>: a weight of shape \<open>[out, in]\<close>, stored row by row, and a
  bias of shape \<open>[out]\<close>.\<close>

record linear =
  weight :: parameter
  bias :: parameter

text \<open>The \<^verbatim>\<open>nn.Sequential\<close> of both networks: the layers at positions 0, 2 and 4, a ReLU
  at positions 1 and 3.\<close>

record mlp =
  fc0 :: linear
  fc2 :: linear
  fc4 :: linear

definition relu :: "real \<Rightarrow> real" where
  "relu x = max 0 x"

definition dot :: "real list \<Rightarrow> real list \<Rightarrow> real" where
  "dot xs ys = sum_list (map2 (*) xs ys)"

definition linear_forward :: "linear \<Rightarrow> real list \<Rightarrow> error + real list" where
  "linear_forward l x =
     (case shape (data (weight l)) of
        [out_f, in_f] \<Rightarrow>
          if length x = in_f \<and> shape (data (bias l)) = [out_f]
          then Inr (map (\<lambda>j. dot (take in_f (drop (j * in_f) (vals (data (weight l))))) x
                              + vals (data (bias l)) ! j) [0..<out_f])
          else Inl RuntimeError
      | _ \<Rightarrow> Inl RuntimeError)"

definition fc :: "mlp \<Rightarrow> real list \<Rightarrow> error + real list" where
  "fc m x =
     (case linear_forward (fc0 m) x of
        Inl e \<Rightarrow> Inl e
      | Inr h0 \<Rightarrow>
          (case linear_forward (fc2 m) (map relu h0) of
             Inl e \<Rightarrow> Inl e
           | Inr h2 \<Rightarrow> linear_forward (fc4 m) (map relu h2)))"

text \<open>A network is a raw module, or the wrapper of the distributed-training adapter around
  a network; the wrapper keeps the wrapped network in its attribute \<^verbatim>\<open>module\<close> and
  forwards to it.\<close>

datatype net = Module mlp | DistributedDataParallel net

fun module_of :: "net \<Rightarrow> mlp" where
  "module_of (Module m) = m"
| "module_of (DistributedDataParallel n) = module_of n"

fun map_module :: "(mlp \<Rightarrow> mlp) \<Rightarrow> net \<Rightarrow> net" where
  "map_module f (Module m) = Module (f m)"
| "map_module f (DistributedDataParallel n) = DistributedDataParallel (map_module f n)"

text \<open>\<^verbatim>\<open>getattr(n, "module", n)\<close>\<close>

fun getattr_module :: "net \<Rightarrow> net" where
  "getattr_module (Module m) = Module m"
| "getattr_module (DistributedDataParallel n) = n"

text \<open>The first error of a list of results, or all the values.\<close>

fun sequence :: "(error + 'a) list \<Rightarrow> error + 'a list" where
  "sequence [] = Inr []"
| "sequence (r # rs) =
     (case r of
        Inl e \<Rightarrow> Inl e
      | Inr x \<Rightarrow> (case sequence rs of Inl e \<Rightarrow> Inl e | Inr xs \<Rightarrow> Inr (x # xs)))"

text \<open>\<^verbatim>\<open>Critic.forward\<close> on one state, and on a batch of states followed by \<^verbatim>\<open>.view(-1)\<close>.\<close>

definition Critic_forward :: "net \<Rightarrow> real list \<Rightarrow> error + real list" where
  "Critic_forward n x = fc (module_of n) x"

definition Critic_values :: "net \<Rightarrow> real list list \<Rightarrow> error + real list" where
  "Critic_values n xs =
     (case sequence (map (Critic_forward n) xs) of
        Inl e \<Rightarrow> Inl e
      | Inr rows \<Rightarrow> Inr (concat rows))"

text \<open>\<^verbatim>\<open>Actor.forward\<close>: a categorical distribution given by its logits; the distribution
  keeps the normalised logits \<open>z - log (\<Sum> exp z)\<close>.\<close>

definition Categorical :: "real list \<Rightarrow> real list" where
  "Categorical logits = map (\<lambda>z. z - ln (sum_list (map exp logits))) logits"

definition Actor_forward :: "net \<Rightarrow> real list \<Rightarrow> error + real list" where
  "Actor_forward n x =
     (case fc (module_of n) x of Inl e \<Rightarrow> Inl e | Inr logits \<Rightarrow> Inr (Categorical logits))"

text \<open>\<^verbatim>\<open>dist.log_prob(action)\<close> for one action: an action outside the support is refused.\<close>

definition log_prob :: "real list \<Rightarrow> int \<Rightarrow> error + real" where
  "log_prob logps a =
     (if 0 \<le> a \<and> nat a < length logps then Inr (logps ! nat a) else Inl ValueError)"

subsection \<open>Configuration and the model container\<close>

record config =
  NUM_STATE :: nat
  NUM_ACTION :: nat
  GAMMA :: real
  LAMBDA :: real
  EPS_CLIP :: real

text \<open>The state \<^verbatim>\<open>optim.Adam\<close> keeps for one parameter, and the optimizer over the
  parameters of one network, in the order of \<^verbatim>\<open>parameters()\<close>.\<close>

record adam_state =
  step :: nat
  exp_avg :: "real list"
  exp_avg_sq :: "real list"

record adam =
  lr :: real
  states_of :: "adam_state option list"

record ModelWrapper =
  cfg :: config
  actor :: net
  critic :: net
  actor_optimizer :: adam
  critic_optimizer :: adam

subsection \<open>Arrays of rank one\<close>

text \<open>An elementwise operation on two arrays of rank one, with the broadcasting of numpy
  and torch: equal lengths, or one of the two of length one. The first argument is the
  error of the library at hand.\<close>

definition bcast2 :: "error \<Rightarrow> ('a \<Rightarrow> 'b \<Rightarrow> 'c) \<Rightarrow> 'a list \<Rightarrow> 'b list \<Rightarrow> error + 'c list" where
  "bcast2 err f xs ys =
     (if length xs = length ys then Inr (map2 f xs ys)
      else if length xs = 1 then Inr (map (f (hd xs)) ys)
      else if length ys = 1 then Inr (map (\<lambda>x. f x (hd ys)) xs)
      else Inl err)"

definition mean :: "real list \<Rightarrow> real" where
  "mean xs = sum_list xs / real (length xs)"

text \<open>\<^verbatim>\<open>ndarray.std()\<close>: the population standard deviation.\<close>

definition std :: "real list \<Rightarrow> real" where
  "std xs = sqrt (mean (map (\<lambda>x. (x - mean xs)\<^sup>2) xs))"

subsection \<open>Advantage estimation: \<^verbatim>\<open>preprocess_data\<close>\<close>

text \<open>Line 73:
  \<^verbatim>\<open>delta = rewards + GAMMA * next_values * (1 - dones) - values\<close>.
  The array \<^verbatim>\<open>dones\<close> is an array of numbers, 0 and 1 in a trajectory.\<close>

definition compute_delta ::
  "real \<Rightarrow> real list \<Rightarrow> real list \<Rightarrow> real list \<Rightarrow> real list \<Rightarrow> error + real list" where
  "compute_delta gamma rewards next_values dones values =
     (case bcast2 ValueError (*) (map (\<lambda>v. gamma * v) next_values) (map (\<lambda>d. 1 - d) dones) of
        Inl e \<Rightarrow> Inl e
      | Inr discounted \<Rightarrow>
          (case bcast2 ValueError (+) rewards discounted of
             Inl e \<Rightarrow> Inl e
           | Inr target \<Rightarrow> bcast2 ValueError (-) target values))"

text \<open>Lines 75 to 80: the loop over the indices it is given, with the running \<^verbatim>\<open>gae\<close>
  and the array \<^verbatim>\<open>advantages\<close>; reading \<^verbatim>\<open>delta[i]\<close> or \<^verbatim>\<open>dones[i]\<close> out of range raises.\<close>

fun gae_loop ::
  "real \<Rightarrow> real \<Rightarrow> real list \<Rightarrow> real list \<Rightarrow> nat list \<Rightarrow> real \<Rightarrow> real list \<Rightarrow> error + real list" where
  "gae_loop gamma lam delta dones [] gae advantages = Inr advantages"
| "gae_loop gamma lam delta dones (i # is) gae advantages =
     (if i < length delta \<and> i < length dones
      then gae_loop gamma lam delta dones is
             (delta ! i + gamma * lam * (1 - dones ! i) * gae)
             (advantages[i := delta ! i + gamma * lam * (1 - dones ! i) * gae])
      else Inl IndexError)"

text \<open>Lines 72 to 80: the advantages before normalisation.\<close>

definition gae_advantages ::
  "config \<Rightarrow> real list \<Rightarrow> real list \<Rightarrow> real list \<Rightarrow> real list \<Rightarrow> error + real list" where
  "gae_advantages c rewards dones values next_values =
     (case compute_delta (GAMMA c) rewards next_values dones values of
        Inl e \<Rightarrow> Inl e
      | Inr delta \<Rightarrow>
          gae_loop (GAMMA c) (LAMBDA c) delta dones (rev [0..<length rewards]) 0
            (replicate (length rewards) 0))"

text \<open>Lines 82 to 86, in exact arithmetic. On an empty array the source divides an empty
  array and returns it; so does the \<open>map\<close>. The source computes in 32-bit floating point, so
  what holds of the exact quotient only (its mean is 0, its standard deviation is below 1) is
  not stated of the source: the statements about the result are the formula it is computed
  by.\<close>

definition normalized_advantage :: "real list \<Rightarrow> real list" where
  "normalized_advantage advantages =
     (let sd = (if length advantages > 1 then std advantages + 1 / 10 ^ 8 else 1)
      in map (\<lambda>a. (a - mean advantages) / sd) advantages)"

record advantage_output =
  advantage :: "real list"
  td_target :: "real list"

definition preprocess_data ::
  "ModelWrapper \<Rightarrow> real list list \<Rightarrow> real list list \<Rightarrow> int list \<Rightarrow> real list \<Rightarrow> real list
     \<Rightarrow> real list \<Rightarrow> error + advantage_output" where
  "preprocess_data self states next_states actions rewards log_probs dones =
     (case Critic_values (critic self) states of
        Inl e \<Rightarrow> Inl e
      | Inr values \<Rightarrow>
          (case Critic_values (critic self) next_states of
             Inl e \<Rightarrow> Inl e
           | Inr next_values \<Rightarrow>
               (case gae_advantages (cfg self) rewards dones values next_values of
                  Inl e \<Rightarrow> Inl e
                | Inr advantages \<Rightarrow>
                    (case bcast2 ValueError (+) (normalized_advantage advantages) values of
                       Inl e \<Rightarrow> Inl e
                     | Inr td \<Rightarrow> Inr \<lparr>advantage = normalized_advantage advantages, td_target = td\<rparr>))))"

subsection \<open>Parameters by name, construction of the networks\<close>

text \<open>\<^verbatim>\<open>parameters()\<close> and the names \<^verbatim>\<open>state_dict()\<close> gives them, in the same order.\<close>

definition parameters :: "mlp \<Rightarrow> parameter list" where
  "parameters m =
     [weight (fc0 m), bias (fc0 m), weight (fc2 m), bias (fc2 m), weight (fc4 m), bias (fc4 m)]"

definition param_names :: "string list" where
  "param_names =
     [''fc.0.weight'', ''fc.0.bias'', ''fc.2.weight'', ''fc.2.bias'', ''fc.4.weight'', ''fc.4.bias'']"

definition set_parameters :: "mlp \<Rightarrow> parameter list \<Rightarrow> mlp" where
  "set_parameters m ps =
     (case ps of
        [w0, b0, w2, b2, w4, b4] \<Rightarrow>
          \<lparr>fc0 = \<lparr>weight = w0, bias = b0\<rparr>, fc2 = \<lparr>weight = w2, bias = b2\<rparr>,
           fc4 = \<lparr>weight = w4, bias = b4\<rparr>\<rparr>
      | _ \<Rightarrow> m)"

text \<open>The initial values of the six parameters of a network. The source draws them at
  random; here they are an argument of the constructors.\<close>

record init_values =
  init_w0 :: "real list"
  init_b0 :: "real list"
  init_w2 :: "real list"
  init_b2 :: "real list"
  init_w4 :: "real list"
  init_b4 :: "real list"

definition Linear :: "nat \<Rightarrow> nat \<Rightarrow> real list \<Rightarrow> real list \<Rightarrow> linear" where
  "Linear in_f out_f w b =
     \<lparr>weight = \<lparr>data = \<lparr>shape = [out_f, in_f], vals = w\<rparr>, grad = None\<rparr>,
      bias = \<lparr>data = \<lparr>shape = [out_f], vals = b\<rparr>, grad = None\<rparr>\<rparr>"

definition Actor :: "nat \<Rightarrow> nat \<Rightarrow> init_values \<Rightarrow> mlp" where
  "Actor state_dim action_dim i =
     \<lparr>fc0 = Linear state_dim 64 (init_w0 i) (init_b0 i),
      fc2 = Linear 64 64 (init_w2 i) (init_b2 i),
      fc4 = Linear 64 action_dim (init_w4 i) (init_b4 i)\<rparr>"

definition Critic :: "nat \<Rightarrow> init_values \<Rightarrow> mlp" where
  "Critic state_dim i =
     \<lparr>fc0 = Linear state_dim 64 (init_w0 i) (init_b0 i),
      fc2 = Linear 64 64 (init_w2 i) (init_b2 i),
      fc4 = Linear 64 1 (init_w4 i) (init_b4 i)\<rparr>"

subsection \<open>Checkpoints: \<^verbatim>\<open>save_model\<close> and \<^verbatim>\<open>load_model\<close>\<close>

type_synonym state_dict = "(string \<times> tensor) list"

text \<open>What \<^verbatim>\<open>torch.save\<close> writes and \<^verbatim>\<open>torch.load\<close> reads: a dictionary of state
  dictionaries, in insertion order.\<close>

type_synonym checkpoint = "(string \<times> state_dict) list"

text \<open>The world outside the container: the files by path, and what has been printed.\<close>

record world =
  files :: "string \<Rightarrow> checkpoint option"
  stdout :: "string list"

text \<open>The names of the parameters of a network; each wrapper adds the prefix of its
  attribute.\<close>

fun names :: "net \<Rightarrow> string list" where
  "names (Module m) = param_names"
| "names (DistributedDataParallel n) = map (\<lambda>k. ''module.'' @ k) (names n)"

definition state_dict :: "net \<Rightarrow> state_dict" where
  "state_dict n = zip (names n) (map data (parameters (module_of n)))"

text \<open>\<^verbatim>\<open>load_state_dict\<close> with \<^verbatim>\<open>strict=True\<close>, as the library has it: every parameter
  whose name is in the dictionary with a tensor of the same shape is overwritten; then a
  missing name, an unexpected name or a tensor of another shape is reported by one
  \<^verbatim>\<open>RuntimeError\<close>.\<close>

definition load_param :: "state_dict \<Rightarrow> string \<times> parameter \<Rightarrow> parameter" where
  "load_param sd kp =
     (case map_of sd (fst kp) of
        Some t \<Rightarrow> if shape t = shape (data (snd kp)) then (snd kp)\<lparr>data := t\<rparr> else snd kp
      | None \<Rightarrow> snd kp)"

definition param_loadable :: "state_dict \<Rightarrow> string \<times> parameter \<Rightarrow> bool" where
  "param_loadable sd kp =
     (case map_of sd (fst kp) of Some t \<Rightarrow> shape t = shape (data (snd kp)) | None \<Rightarrow> False)"

definition loadable :: "net \<Rightarrow> state_dict \<Rightarrow> bool" where
  "loadable n sd =
     (list_all (param_loadable sd) (zip (names n) (parameters (module_of n)))
      \<and> list_all (\<lambda>k. List.member (names n) k) (map fst sd))"

definition load_state_dict :: "net \<Rightarrow> state_dict \<Rightarrow> error option \<times> net" where
  "load_state_dict n sd =
     (if loadable n sd then None else Some RuntimeError,
      map_module
        (\<lambda>m. set_parameters m (map (load_param sd) (zip (names n) (parameters m)))) n)"

definition save_model :: "ModelWrapper \<Rightarrow> string \<Rightarrow> world \<Rightarrow> world" where
  "save_model self model_path w =
     w\<lparr>files := (files w)
          (model_path \<mapsto>
             [(''actor'', state_dict (getattr_module (actor self))),
              (''critic'', state_dict (getattr_module (critic self)))])\<rparr>"

text \<open>\<^verbatim>\<open>load_model\<close>: the error that leaves the function (if any), the container and the
  world as the function leaves them. Only \<^verbatim>\<open>FileNotFoundError\<close> is caught.\<close>

definition load_model ::
  "ModelWrapper \<Rightarrow> string \<Rightarrow> world \<Rightarrow> error option \<times> ModelWrapper \<times> world" where
  "load_model self model_path w =
     (case files w model_path of
        None \<Rightarrow>
          (None, self, w\<lparr>stdout := stdout w @ [''Model file not found at '' @ model_path @ ''.'']\<rparr>)
      | Some ckpt \<Rightarrow>
          (case map_of ckpt ''actor'' of
             None \<Rightarrow> (Some KeyError, self, w)
           | Some sd_actor \<Rightarrow>
               (case load_state_dict (actor self) sd_actor of
                  (Some e, a) \<Rightarrow> (Some e, self\<lparr>actor := a\<rparr>, w)
                | (None, a) \<Rightarrow>
                    (case map_of ckpt ''critic'' of
                       None \<Rightarrow> (Some KeyError, self\<lparr>actor := a\<rparr>, w)
                     | Some sd_critic \<Rightarrow>
                         (case load_state_dict (critic self) sd_critic of
                            (Some e, c) \<Rightarrow> (Some e, self\<lparr>actor := a, critic := c\<rparr>, w)
                          | (None, c) \<Rightarrow>
                              (None, self\<lparr>actor := a, critic := c\<rparr>,
                               w\<lparr>stdout := stdout w
                                    @ [''Model loaded successfully at '' @ model_path @ ''.'']\<rparr>))))))"

text \<open>\<^verbatim>\<open>optim.Adam(params, lr=learning_rate)\<close>: no state for any parameter yet.\<close>

definition Adam :: "parameter list \<Rightarrow> real \<Rightarrow> adam" where
  "Adam ps learning_rate = \<lparr>lr = learning_rate, states_of = map (\<lambda>_. None) ps\<rparr>"

text \<open>\<^verbatim>\<open>ModelWrapper.__init__\<close>. An error of \<^verbatim>\<open>load_model\<close> leaves the constructor, and no
  container exists then.\<close>

definition ModelWrapper_init ::
  "init_values \<Rightarrow> init_values \<Rightarrow> string \<Rightarrow> real \<Rightarrow> config \<Rightarrow> world
     \<Rightarrow> error + (ModelWrapper \<times> world)" where
  "ModelWrapper_init actor_init critic_init model_path learning_rate c w =
     \<comment> \<open>The optimizers do not exist before line 22; \<open>load_model\<close> does not read them.\<close>
     (let a = Module (Actor (NUM_STATE c) (NUM_ACTION c) actor_init);
          k = Module (Critic (NUM_STATE c) critic_init);
          self = \<lparr>cfg = c, actor = a, critic = k,
                  actor_optimizer = Adam [] learning_rate,
                  critic_optimizer = Adam [] learning_rate\<rparr>
      in case load_model self model_path w of
           (Some e, _, _) \<Rightarrow> Inl e
         | (None, self', w') \<Rightarrow>
             Inr (self'\<lparr>actor_optimizer :=
                          Adam (parameters (module_of (actor self'))) learning_rate,
                        critic_optimizer :=
                          Adam (parameters (module_of (critic self'))) learning_rate\<rparr>,
                  w'))"

definition get_model :: "ModelWrapper \<Rightarrow> (string \<times> net) list" where
  "get_model self = [(''actor'', actor self), (''critic'', critic self)]"

subsection \<open>The update: \<^verbatim>\<open>train_model\<close>\<close>

text \<open>\<^verbatim>\<open>batch_pi_dist.log_prob(batch_action)\<close> on a batch of distributions.\<close>

definition batch_log_prob_of :: "real list list \<Rightarrow> int list \<Rightarrow> error + real list" where
  "batch_log_prob_of batch_pi_dist batch_action =
     (case bcast2 ValueError log_prob batch_pi_dist batch_action of
        Inl e \<Rightarrow> Inl e
      | Inr rs \<Rightarrow> sequence rs)"

text \<open>\<^verbatim>\<open>torch.clamp(x, lo, hi)\<close>\<close>

definition clamp :: "real \<Rightarrow> real \<Rightarrow> real \<Rightarrow> real" where
  "clamp lo hi x = min (max x lo) hi"

text \<open>\<^verbatim>\<open>.mean()\<close> of a tensor of rank one. The mean of an empty tensor is a not-a-number
  in the source, which goes on with it; here it is an error.\<close>

definition tensor_mean :: "real list \<Rightarrow> error + real" where
  "tensor_mean xs = (if xs = [] then Inl NotANumber else Inr (sum_list xs / real (length xs)))"

text \<open>\<^verbatim>\<open>F.mse_loss(input, target)\<close> with the default reduction.\<close>

definition mse_loss :: "real list \<Rightarrow> real list \<Rightarrow> error + real" where
  "mse_loss input target =
     (case bcast2 RuntimeError (\<lambda>a b. (a - b)\<^sup>2) input target of
        Inl e \<Rightarrow> Inl e
      | Inr sq \<Rightarrow> tensor_mean sq)"

text \<open>Line 96, \<^verbatim>\<open>self.critic(batch_state)\<close>: one row of width one per state.\<close>

definition batch_value_of :: "net \<Rightarrow> real list list \<Rightarrow> error + real list list" where
  "batch_value_of n batch_state = sequence (map (Critic_forward n) batch_state)"

text \<open>Lines 97 to 102: the actor loss, as a function of the actor network.\<close>

definition actor_loss_of ::
  "config \<Rightarrow> real list list \<Rightarrow> int list \<Rightarrow> real list \<Rightarrow> real list \<Rightarrow> net \<Rightarrow> error + real" where
  "actor_loss_of c batch_state batch_action batch_log_prob batch_advantage n =
     (case sequence (map (Actor_forward n) batch_state) of
        Inl e \<Rightarrow> Inl e
      | Inr batch_pi_dist \<Rightarrow>
     (case batch_log_prob_of batch_pi_dist batch_action of
        Inl e \<Rightarrow> Inl e
      | Inr batch_new_prob \<Rightarrow>
     (case bcast2 RuntimeError (\<lambda>new old. exp (new - old)) batch_new_prob batch_log_prob of
        Inl e \<Rightarrow> Inl e
      | Inr ratio \<Rightarrow>
     (case bcast2 RuntimeError (*) ratio batch_advantage of
        Inl e \<Rightarrow> Inl e
      | Inr policy_gradient \<Rightarrow>
     (case bcast2 RuntimeError (*) (map (clamp (1 - EPS_CLIP c) (1 + EPS_CLIP c)) ratio)
             batch_advantage of
        Inl e \<Rightarrow> Inl e
      | Inr clipped \<Rightarrow>
     (case bcast2 RuntimeError min policy_gradient clipped of
        Inl e \<Rightarrow> Inl e
      | Inr m \<Rightarrow>
     (case tensor_mean m of
        Inl e \<Rightarrow> Inl e
      | Inr mu \<Rightarrow> Inr (- mu))))))))"

text \<open>Lines 96 and 104: the critic loss, as a function of the critic network.\<close>

definition critic_loss_of :: "real list list \<Rightarrow> real list \<Rightarrow> net \<Rightarrow> error + real" where
  "critic_loss_of batch_state batch_td_target n =
     (case batch_value_of n batch_state of
        Inl e \<Rightarrow> Inl e
      | Inr batch_value \<Rightarrow> mse_loss batch_td_target (concat batch_value))"

text \<open>Automatic differentiation is the library's: \<open>ag f m\<close> is the gradient at \<open>m\<close> of the
  scalar \<open>f\<close> of the six parameters, one list per parameter in the order of
  \<^verbatim>\<open>parameters()\<close>. It is an argument of the model.\<close>

type_synonym autograd = "(mlp \<Rightarrow> real) \<Rightarrow> mlp \<Rightarrow> real list list"

text \<open>\<^verbatim>\<open>optimizer.zero_grad()\<close> on the parameters the optimizer was built on.\<close>

definition zero_grad :: "net \<Rightarrow> net" where
  "zero_grad n =
     map_module (\<lambda>m. set_parameters m (map (\<lambda>p. p\<lparr>grad := None\<rparr>) (parameters m))) n"

text \<open>\<^verbatim>\<open>loss.backward()\<close> adds the gradient of the loss to the buffer of every parameter
  the loss was computed from.\<close>

definition accumulate :: "parameter \<times> real list \<Rightarrow> parameter" where
  "accumulate pg =
     (fst pg)\<lparr>grad := (case grad (fst pg) of
                        None \<Rightarrow> Some (snd pg)
                      | Some g0 \<Rightarrow> Some (map2 (+) g0 (snd pg)))\<rparr>"

definition backward :: "autograd \<Rightarrow> (net \<Rightarrow> error + real) \<Rightarrow> net \<Rightarrow> net" where
  "backward ag loss_of n =
     map_module
       (\<lambda>m. set_parameters m
          (map accumulate
             (zip (parameters m)
                (ag (\<lambda>m'. case loss_of (map_module (\<lambda>_. m') n) of Inl _ \<Rightarrow> 0 | Inr l \<Rightarrow> l) m))))
       n"

text \<open>One step of \<^verbatim>\<open>optim.Adam\<close> with the defaults of the library
  (\<open>\<beta>\<^sub>1 = 0.9\<close>, \<open>\<beta>\<^sub>2 = 0.999\<close>, \<open>\<epsilon> = 10\<^sup>-\<^sup>8\<close>) on one parameter; a parameter without a
  gradient is skipped.\<close>

definition adam_update :: "real \<Rightarrow> parameter \<times> adam_state option \<Rightarrow> parameter \<times> adam_state option" where
  "adam_update learning_rate ps =
     (case grad (fst ps) of
        None \<Rightarrow> ps
      | Some g \<Rightarrow>
          (let s = (case snd ps of
                      None \<Rightarrow> \<lparr>step = 0, exp_avg = map (\<lambda>_. 0) (vals (data (fst ps))),
                               exp_avg_sq = map (\<lambda>_. 0) (vals (data (fst ps)))\<rparr>
                    | Some s \<Rightarrow> s);
               t = step s + 1;
               m = map2 (\<lambda>m g. 0.9 * m + (1 - 0.9) * g) (exp_avg s) g;
               v = map2 (\<lambda>v g. 0.999 * v + (1 - 0.999) * (g * g)) (exp_avg_sq s) g;
               step_size = learning_rate / (1 - 0.9 ^ t);
               denom = map (\<lambda>v. sqrt v / sqrt (1 - 0.999 ^ t) + 1 / 10 ^ 8) v;
               new = map2 (\<lambda>p md. p - step_size * (fst md / snd md)) (vals (data (fst ps)))
                       (zip m denom)
           in ((fst ps)\<lparr>data := (data (fst ps))\<lparr>vals := new\<rparr>\<rparr>,
               Some \<lparr>step = t, exp_avg = m, exp_avg_sq = v\<rparr>)))"

definition optimizer_step :: "adam \<Rightarrow> net \<Rightarrow> adam \<times> net" where
  "optimizer_step opt n =
     (opt\<lparr>states_of := map snd (map (adam_update (lr opt))
                                 (zip (parameters (module_of n)) (states_of opt)))\<rparr>,
      map_module
        (\<lambda>m. set_parameters m
           (map fst (map (adam_update (lr opt)) (zip (parameters m) (states_of opt))))) n)"

text \<open>Lines 106 to 108 and lines 110 to 112, each as a function of the container.\<close>

definition update_actor :: "autograd \<Rightarrow> (net \<Rightarrow> error + real) \<Rightarrow> ModelWrapper \<Rightarrow> ModelWrapper" where
  "update_actor ag actor_loss_fn self =
     (let self1 = self\<lparr>actor := zero_grad (actor self)\<rparr>;
          self2 = self1\<lparr>actor := backward ag actor_loss_fn (actor self1)\<rparr>;
          r = optimizer_step (actor_optimizer self2) (actor self2)
      in self2\<lparr>actor_optimizer := fst r, actor := snd r\<rparr>)"

definition update_critic :: "autograd \<Rightarrow> (net \<Rightarrow> error + real) \<Rightarrow> ModelWrapper \<Rightarrow> ModelWrapper" where
  "update_critic ag critic_loss_fn self =
     (let self1 = self\<lparr>critic := zero_grad (critic self)\<rparr>;
          self2 = self1\<lparr>critic := backward ag critic_loss_fn (critic self1)\<rparr>;
          r = optimizer_step (critic_optimizer self2) (critic self2)
      in self2\<lparr>critic_optimizer := fst r, critic := snd r\<rparr>)"

record losses =
  loss :: real
  critic_loss :: real
  actor_loss :: real

definition train_model ::
  "autograd \<Rightarrow> ModelWrapper \<Rightarrow> real list list \<Rightarrow> real list list \<Rightarrow> int list \<Rightarrow> real list
     \<Rightarrow> real list \<Rightarrow> real list \<Rightarrow> advantage_output \<Rightarrow> error + (losses \<times> ModelWrapper)" where
  "train_model ag self batch_state batch_next_state batch_action batch_reward batch_log_prob
       batch_done pre =
     (case batch_value_of (critic self) batch_state of
        Inl e \<Rightarrow> Inl e
      | Inr batch_value \<Rightarrow>
     (case actor_loss_of (cfg self) batch_state batch_action batch_log_prob (advantage pre)
             (actor self) of
        Inl e \<Rightarrow> Inl e
      | Inr al \<Rightarrow>
     (case mse_loss (td_target pre) (concat batch_value) of
        Inl e \<Rightarrow> Inl e
      | Inr cl \<Rightarrow>
          Inr (\<lparr>loss = al + cl, critic_loss = cl, actor_loss = al\<rparr>,
               update_critic ag (critic_loss_of batch_state (td_target pre))
                 (update_actor ag
                    (actor_loss_of (cfg self) batch_state batch_action batch_log_prob
                       (advantage pre))
                    self)))))"

subsection \<open>The worker\<close>

text \<open>The attributes of a \<^verbatim>\<open>Worker\<close> that \<^verbatim>\<open>__init__\<close> sets and the functions below read
  (the configuration records and the environment are left out), and the attributes that
  \<^verbatim>\<open>setattr\<close> adds later, by name.\<close>

record Worker =
  model_path :: string
  learning_rate :: real
  model :: ModelWrapper
  attrs :: "(string \<times> net) list"

text \<open>\<^verbatim>\<open>setattr(self, k, v)\<close> for a name that is none of the attributes above; the names
  \<^verbatim>\<open>get_model\<close> gives are \<^verbatim>\<open>actor\<close> and \<^verbatim>\<open>critic\<close>.\<close>

definition setattr :: "Worker \<Rightarrow> string \<Rightarrow> net \<Rightarrow> Worker" where
  "setattr self k v = self\<lparr>attrs := (k, v) # filter (\<lambda>kv. fst kv \<noteq> k) (attrs self)\<rparr>"

text \<open>\<^verbatim>\<open>Worker.prepare_model\<close>; the adapter \<^verbatim>\<open>train.torch.prepare_model\<close> of the
  execution layer is an argument.\<close>

definition prepare_model :: "(net \<Rightarrow> net) \<Rightarrow> Worker \<Rightarrow> Worker" where
  "prepare_model adapter self =
     foldl (\<lambda>w kn. setattr w (fst kn) (adapter (snd kn))) self (get_model (model self))"

definition Worker_preprocess_data ::
  "Worker \<Rightarrow> real list list \<Rightarrow> real list list \<Rightarrow> int list \<Rightarrow> real list \<Rightarrow> real list
     \<Rightarrow> real list \<Rightarrow> error + advantage_output" where
  "Worker_preprocess_data self state next_state action reward lp done =
     preprocess_data (model self) state next_state action reward lp done"

definition Worker_train_model ::
  "autograd \<Rightarrow> Worker \<Rightarrow> real list list \<Rightarrow> real list list \<Rightarrow> int list \<Rightarrow> real list
     \<Rightarrow> real list \<Rightarrow> real list \<Rightarrow> advantage_output \<Rightarrow> error + (losses \<times> Worker)" where
  "Worker_train_model ag self batch_state batch_next_state batch_action batch_reward
       batch_log_prob batch_done batch =
     (case train_model ag (model self) batch_state batch_next_state batch_action batch_reward
             batch_log_prob batch_done batch of
        Inl e \<Rightarrow> Inl e
      | Inr r \<Rightarrow> Inr (fst r, self\<lparr>model := snd r\<rparr>))"

definition Worker_save_model :: "Worker \<Rightarrow> string \<Rightarrow> world \<Rightarrow> world" where
  "Worker_save_model self path w = save_model (model self) path w"

subsection \<open>Auxiliary definitions for the proofs\<close>

text \<open>The backward recurrence of the advantage estimator as a recursion from the front of
  the arrays: the head is computed from the head of the result for the tail.\<close>

fun gae_rec :: "real \<Rightarrow> real \<Rightarrow> real list \<Rightarrow> real list \<Rightarrow> real list" where
  "gae_rec gamma lam [] dones = []"
| "gae_rec gamma lam (x # delta) dones =
     (x + gamma * lam * (1 - hd dones)
          * (case gae_rec gamma lam delta (tl dones) of [] \<Rightarrow> 0 | a # _ \<Rightarrow> a))
     # gae_rec gamma lam delta (tl dones)"

text \<open>Networks for the concrete instances: all weights zero, the last bias constant, so
  that every output of the last layer is that constant.\<close>

definition const_init :: "nat \<Rightarrow> nat \<Rightarrow> real \<Rightarrow> init_values" where
  "const_init state_dim out_dim b =
     \<lparr>init_w0 = replicate (64 * state_dim) 0, init_b0 = replicate 64 0,
      init_w2 = replicate (64 * 64) 0, init_b2 = replicate 64 0,
      init_w4 = replicate (out_dim * 64) 0, init_b4 = replicate out_dim b\<rparr>"

definition example_config :: "real \<Rightarrow> real \<Rightarrow> config" where
  "example_config g l = \<lparr>NUM_STATE = 1, NUM_ACTION = 2, GAMMA = g, LAMBDA = l, EPS_CLIP = 0.2\<rparr>"

text \<open>A container over one-dimensional states with two actions, whose critic values every
  state at \<open>v\<close> and whose actor is uniform.\<close>

definition example_container :: "real \<Rightarrow> real \<Rightarrow> real \<Rightarrow> ModelWrapper" where
  "example_container g l v =
     \<lparr>cfg = example_config g l,
      actor = Module (Actor 1 2 (const_init 1 2 0)),
      critic = Module (Critic 1 (const_init 1 1 v)),
      actor_optimizer = Adam (parameters (Actor 1 2 (const_init 1 2 0))) 0.001,
      critic_optimizer = Adam (parameters (Critic 1 (const_init 1 1 v))) 0.001\<rparr>"

text \<open>A checkpoint is malformed for a container when it has no entry \<^verbatim>\<open>actor\<close> or no entry
  \<^verbatim>\<open>critic\<close>, or when one of the two state dictionaries does not fit its network: a
  parameter name is missing, a name is unexpected, or a tensor has another shape.\<close>

definition malformed_for :: "ModelWrapper \<Rightarrow> checkpoint \<Rightarrow> bool" where
  "malformed_for self ckpt =
     (case map_of ckpt ''actor'' of
        None \<Rightarrow> True
      | Some sd_actor \<Rightarrow>
          \<not> loadable (actor self) sd_actor
          \<or> (case map_of ckpt ''critic'' of
                None \<Rightarrow> True
              | Some sd_critic \<Rightarrow> \<not> loadable (critic self) sd_critic))"

text \<open>Checkpoints and worlds for the concrete instances: a checkpoint whose actor entry has
  another state dimension and no critic entry, a checkpoint that fits \<open>example_container\<close>, and
  the world with at most the file \<^verbatim>\<open>model.pt\<close>.\<close>

definition bad_checkpoint :: checkpoint where
  "bad_checkpoint = [(''actor'', state_dict (Module (Actor 3 2 (const_init 3 2 0))))]"

definition good_checkpoint :: checkpoint where
  "good_checkpoint =
     [(''actor'', state_dict (Module (Actor 1 2 (const_init 1 2 5)))),
      (''critic'', state_dict (Module (Critic 1 (const_init 1 1 7))))]"

definition world_with :: "checkpoint option \<Rightarrow> world" where
  "world_with c = \<lparr>files = (\<lambda>p. if p = ''model.pt'' then c else None), stdout = []\<rparr>"

text \<open>The container of the concrete instances after the adapter has wrapped both of its
  networks once.\<close>

definition wrapped_container :: "real \<Rightarrow> ModelWrapper" where
  "wrapped_container v =
     (example_container 0 0 v)
       \<lparr>actor := DistributedDataParallel (actor (example_container 0 0 v)),
        critic := DistributedDataParallel (critic (example_container 0 0 v))\<rparr>"

text \<open>An instance of automatic differentiation for the concrete instances: every entry of
  every gradient is \<open>g\<close>.\<close>

definition const_autograd :: "real \<Rightarrow> autograd" where
  "const_autograd g f m = map (\<lambda>p. map (\<lambda>_. g) (vals (data p))) (parameters m)"

section \<open>Properties of the advantage estimator\<close>

subsection \<open>Broadcasting and the residuals\<close>

lemma bcast2_same: "length xs = length ys \<Longrightarrow> bcast2 err f xs ys = Inr (map2 f xs ys)"
  by (simp add: bcast2_def)

lemma compute_delta_aligned:
  assumes nv: "length next_values = length rewards" and dn: "length dones = length rewards"
    and vs: "length values = length rewards"
  shows "compute_delta g rewards next_values dones values =
     Inr (map (\<lambda>t. rewards ! t + g * next_values ! t * (1 - dones ! t) - values ! t)
            [0..<length rewards])"
proof -
  have "compute_delta g rewards next_values dones values =
      Inr (map2 (-) (map2 (+) rewards
             (map2 (*) (map (\<lambda>v. g * v) next_values) (map (\<lambda>d. 1 - d) dones))) values)"
    by (simp add: compute_delta_def bcast2_same nv dn vs)
  moreover have "map2 (-) (map2 (+) rewards
             (map2 (*) (map (\<lambda>v. g * v) next_values) (map (\<lambda>d. 1 - d) dones))) values
      = map (\<lambda>t. rewards ! t + g * next_values ! t * (1 - dones ! t) - values ! t)
            [0..<length rewards]"
    by (rule nth_equalityI) (simp_all add: nv dn vs)
  ultimately show ?thesis by simp
qed

subsection \<open>The loop computes the backward recurrence\<close>

lemma length_gae_rec: "length (gae_rec g l delta dones) = length delta"
  by (induction delta arbitrary: dones) simp_all

lemma gae_rec_nth:
  "length dones = length delta \<Longrightarrow> t < length delta \<Longrightarrow>
   gae_rec g l delta dones ! t =
     delta ! t + g * l * (1 - dones ! t)
       * (if Suc t < length delta then gae_rec g l delta dones ! Suc t else 0)"
proof (induction delta arbitrary: dones t)
  case Nil
  then show ?case by simp
next
  case (Cons x delta)
  then obtain d ds where dones: "dones = d # ds" by (cases dones) auto
  show ?case
  proof (cases t)
    case 0
    then show ?thesis using dones
      by (cases "gae_rec g l delta ds") (auto simp: length_gae_rec dest: arg_cong[where f=length])
  next
    case (Suc t')
    then show ?thesis using Cons dones by simp
  qed
qed

text \<open>The invariant of the loop at index \<open>k\<close>: the entries from \<open>k\<close> on are final, and
  \<open>gae\<close> is the entry at \<open>k\<close> (or the initial 0).\<close>

lemma gae_loop_rev_upt:
  assumes "k \<le> length delta" "length dones = length delta" "length adv = length delta"
    "drop k adv = gae_rec g l (drop k delta) (drop k dones)"
    "gae = (if k < length delta then adv ! k else 0)"
  shows "gae_loop g l delta dones (rev [0..<k]) gae adv = Inr (gae_rec g l delta dones)"
  using assms
proof (induction k arbitrary: gae adv)
  case 0
  then show ?case by simp
next
  case (Suc k)
  let ?gae = "delta ! k + g * l * (1 - dones ! k) * gae"
  have k: "k < length delta" using Suc.prems by simp
  have tail: "drop (Suc k) adv = gae_rec g l (drop (Suc k) delta) (drop (Suc k) dones)"
    using Suc.prems by simp
  have hd0: "(case gae_rec g l (drop (Suc k) delta) (drop (Suc k) dones) of
                [] \<Rightarrow> 0 | a # _ \<Rightarrow> a) = gae"
  proof (cases "Suc k < length delta")
    case True
    then have "drop (Suc k) adv = adv ! Suc k # drop (Suc (Suc k)) adv"
      using Suc.prems by (simp add: Cons_nth_drop_Suc)
    then show ?thesis using True Suc.prems tail by simp
  next
    case False
    then show ?thesis using Suc.prems by simp
  qed
  have "drop k (adv[k := ?gae]) = ?gae # drop (Suc k) adv"
    using k Suc.prems by (simp add: upd_conv_take_nth_drop)
  moreover have "gae_rec g l (drop k delta) (drop k dones) = ?gae # drop (Suc k) adv"
    using k Suc.prems(2) hd0 tail
    by (simp add: Cons_nth_drop_Suc[symmetric] drop_Suc tl_drop hd_drop_conv_nth)
  ultimately have "drop k (adv[k := ?gae]) = gae_rec g l (drop k delta) (drop k dones)"
    by simp
  moreover have "?gae = (if k < length delta then adv[k := ?gae] ! k else 0)"
    using k Suc.prems by simp
  ultimately have "gae_loop g l delta dones (rev [0..<k]) ?gae (adv[k := ?gae])
      = Inr (gae_rec g l delta dones)"
    using Suc.IH[of "adv[k := ?gae]" ?gae] Suc.prems k by simp
  then show ?case using k Suc.prems by simp
qed

lemma gae_advantages_aligned:
  assumes "length dones = length rewards" "length values = length rewards"
    "length next_values = length rewards"
  shows "gae_advantages c rewards dones values next_values =
     Inr (gae_rec (GAMMA c) (LAMBDA c)
            (map (\<lambda>t. rewards ! t + GAMMA c * next_values ! t * (1 - dones ! t) - values ! t)
               [0..<length rewards])
            dones)"
proof -
  let ?delta = "map (\<lambda>t. rewards ! t + GAMMA c * next_values ! t * (1 - dones ! t) - values ! t)
                  [0..<length rewards]"
  have "gae_loop (GAMMA c) (LAMBDA c) ?delta dones (rev [0..<length rewards]) 0
          (replicate (length rewards) 0) = Inr (gae_rec (GAMMA c) (LAMBDA c) ?delta dones)"
    by (rule gae_loop_rev_upt) (use assms in simp_all)
  then show ?thesis
    using assms by (simp add: gae_advantages_def compute_delta_aligned)
qed

text \<open>
  \<^bold>\<open>C1.\<close> On a batch of length \<open>T \<ge> 1\<close> whose rewards, dones, values and next values are
  aligned, the estimator computes the residuals
  \<open>delta[t] = reward[t] + GAMMA * next_value[t] * (1 - done[t]) - value[t]\<close> and, from
  them, advantages (before normalisation) that satisfy the backward recurrence
  \<open>A[t] = delta[t] + GAMMA * LAMBDA * (1 - done[t]) * A[t + 1]\<close>, with 0 in the place of
  \<open>A[T]\<close>. On rewards \<open>[1, 1, 1]\<close>, dones \<open>[0, 0, 1]\<close>, values and next values 0, with
  GAMMA 0.99 and LAMBDA 0.95, the advantages before normalisation are
  \<open>[1 + 0.99 * 0.95 * 1.9405, 1 + 0.99 * 0.95 * 1, 1]\<close>.
\<close>

theorem gae_backward_recurrence:
  assumes "1 \<le> T" "length rewards = T" "length dones = T" "length values = T"
    "length next_values = T"
  shows "(\<exists>delta A.
      compute_delta (GAMMA c) rewards next_values dones values = Inr delta
    \<and> length delta = T
    \<and> (\<forall>t<T. delta ! t = rewards ! t + GAMMA c * next_values ! t * (1 - dones ! t) - values ! t)
    \<and> gae_advantages c rewards dones values next_values = Inr A
    \<and> length A = T
    \<and> (\<forall>t<T. A ! t = delta ! t + GAMMA c * LAMBDA c * (1 - dones ! t)
                          * (if Suc t < T then A ! Suc t else 0)))
    \<and> gae_advantages
        \<lparr>NUM_STATE = n, NUM_ACTION = k, GAMMA = 0.99, LAMBDA = 0.95, EPS_CLIP = e\<rparr>
        [1, 1, 1] [0, 0, 1] [0, 0, 0] [0, 0, 0]
      = Inr [1 + 0.99 * 0.95 * 1.9405, 1 + 0.99 * 0.95 * 1, 1]"
proof -
  let ?delta = "map (\<lambda>t. rewards ! t + GAMMA c * next_values ! t * (1 - dones ! t) - values ! t)
            [0..<length rewards]"
  let ?A = "gae_rec (GAMMA c) (LAMBDA c) ?delta dones"
  have d: "compute_delta (GAMMA c) rewards next_values dones values = Inr ?delta"
    using assms by (simp add: compute_delta_aligned)
  have a: "gae_advantages c rewards dones values next_values = Inr ?A"
    using assms by (simp add: gae_advantages_aligned)
  have n: "\<forall>t<T. ?A ! t = ?delta ! t + GAMMA c * LAMBDA c * (1 - dones ! t)
                          * (if Suc t < T then ?A ! Suc t else 0)"
    using gae_rec_nth[of dones ?delta _ "GAMMA c" "LAMBDA c"] assms by simp
  have l: "length ?A = T" using assms by (simp add: length_gae_rec)
  have dl: "length ?delta = T" using assms by simp
  have dn: "\<forall>t<T. ?delta ! t
              = rewards ! t + GAMMA c * next_values ! t * (1 - dones ! t) - values ! t"
    using assms by simp
  have ex: "gae_advantages
        \<lparr>NUM_STATE = n, NUM_ACTION = k, GAMMA = 0.99, LAMBDA = 0.95, EPS_CLIP = e\<rparr>
        [1, 1, 1] [0, 0, 1] [0, 0, 0] [0, 0, 0]
      = Inr [1 + 0.99 * 0.95 * 1.9405, 1 + 0.99 * 0.95 * 1, 1]"
    by (simp add: gae_advantages_def compute_delta_def bcast2_def upt_rec_numeral
        eval_nat_numeral)
  show ?thesis using d a n l dl dn ex by blast
qed

theorem gae_backward_recurrence_witness:
  "(1::nat) \<le> 2 \<and> length [1, 2::real] = 2 \<and> length [0, 0::real] = 2
   \<and> length [3, 4::real] = 2 \<and> length [5, 6::real] = 2
   \<and> (\<exists>delta A.
        compute_delta (GAMMA (example_config (1/2) 1)) [1, 2] [5, 6] [0, 0] [3, 4] = Inr delta
      \<and> length delta = 2
      \<and> (\<forall>t<2. delta ! t = [1, 2] ! t + GAMMA (example_config (1/2) 1) * [5, 6] ! t
                   * (1 - [0, 0] ! t) - [3, 4] ! t)
      \<and> gae_advantages (example_config (1/2) 1) [1, 2] [0, 0] [3, 4] [5, 6] = Inr A
      \<and> length A = 2
      \<and> (\<forall>t<2. A ! t = delta ! t + GAMMA (example_config (1/2) 1)
                   * LAMBDA (example_config (1/2) 1) * (1 - [0, 0] ! t)
                   * (if Suc t < 2 then A ! Suc t else 0)))"
proof -
  have "\<exists>delta A.
        compute_delta (GAMMA (example_config (1/2) 1)) [1, 2] [5, 6] [0, 0] [3, 4] = Inr delta
      \<and> length delta = 2
      \<and> (\<forall>t<2. delta ! t = [1, 2] ! t + GAMMA (example_config (1/2) 1) * [5, 6] ! t
                   * (1 - [0, 0] ! t) - [3, 4] ! t)
      \<and> gae_advantages (example_config (1/2) 1) [1, 2] [0, 0] [3, 4] [5, 6] = Inr A
      \<and> length A = 2
      \<and> (\<forall>t<2. A ! t = delta ! t + GAMMA (example_config (1/2) 1)
                   * LAMBDA (example_config (1/2) 1) * (1 - [0, 0] ! t)
                   * (if Suc t < 2 then A ! Suc t else 0))"
    by (rule conjunct1
          [OF gae_backward_recurrence
                [of 2 "[1, 2]" "[0, 0]" "[3, 4]" "[5, 6]" "example_config (1/2) 1"]])
       simp_all
  then show ?thesis by simp
qed

subsection \<open>The networks of the concrete instances\<close>

lemma dot_zero: "dot (replicate k 0) x = 0"
  unfolding dot_def by (induction k arbitrary: x) (auto simp: zip_Cons1 split: list.splits)

lemma linear_forward_const:
  assumes "length x = i"
  shows "linear_forward (Linear i o' (replicate (o' * i) 0) (replicate o' b)) x
           = Inr (replicate o' b)"
proof -
  have "map (\<lambda>j. dot (take i (drop (j * i) (replicate (o' * i) 0))) x + replicate o' b ! j)
          [0..<o'] = replicate o' b"
    by (rule nth_equalityI) (simp_all add: dot_zero)
  then show ?thesis using assms by (simp add: linear_forward_def Linear_def)
qed

lemma fc_Critic_const:
  "length x = n \<Longrightarrow> fc (Critic n (const_init n (Suc 0) v)) x = Inr [v]"
  using linear_forward_const[of x n 64 0] linear_forward_const[of "replicate 64 0" 64 64 0]
    linear_forward_const[of "replicate 64 0" 64 1 v]
  by (simp add: fc_def Critic_def const_init_def relu_def mult.commute)

lemma fc_Actor_const:
  "length x = n \<Longrightarrow> fc (Actor n k (const_init n k v)) x = Inr (replicate k v)"
  using linear_forward_const[of x n 64 0] linear_forward_const[of "replicate 64 0" 64 64 0]
    linear_forward_const[of "replicate 64 0" 64 k v]
  by (simp add: fc_def Actor_def const_init_def relu_def mult.commute)

lemma sequence_replicate: "sequence (replicate k (Inr x)) = Inr (replicate k x)"
  by (induction k) simp_all

lemma concat_replicate_single: "concat (replicate k [v]) = replicate k v"
  by (induction k) simp_all

lemma Critic_forward_example:
  "length x = 1 \<Longrightarrow> Critic_forward (critic (example_container g l v)) x = Inr [v]"
  by (simp add: Critic_forward_def example_container_def fc_Critic_const)

lemma Critic_values_example:
  assumes "list_all (\<lambda>x. length x = 1) xs"
  shows "Critic_values (critic (example_container g l v)) xs = Inr (replicate (length xs) v)"
proof -
  have "map (Critic_forward (critic (example_container g l v))) xs = map (\<lambda>x. Inr [v]) xs"
    using assms by (auto simp: Critic_forward_example list_all_iff)
  then show ?thesis
    by (simp add: Critic_values_def sequence_replicate concat_replicate_single
        map_replicate_const)
qed

lemma cfg_example: "cfg (example_container g l v) = example_config g l"
  by (simp add: example_container_def)

lemmas example_simps =
  preprocess_data_def Critic_values_example cfg_example gae_advantages_def compute_delta_def
  bcast2_def example_config_def eval_nat_numeral

subsection \<open>Normalisation\<close>

lemma gae_loop_length:
  "gae_loop g l delta dones is gae adv = Inr A \<Longrightarrow> length A = length adv"
  by (induction g l delta dones "is" gae adv rule: gae_loop.induct)
     (auto split: if_splits)

lemma gae_advantages_length:
  "gae_advantages c rewards dones values next_values = Inr A \<Longrightarrow> length A = length rewards"
  by (auto simp: gae_advantages_def dest: gae_loop_length split: sum.splits)

lemma normalized_single: "normalized_advantage [a] = [0]"
  by (simp add: normalized_advantage_def mean_def)

lemma normalized_many:
  "1 < length A \<Longrightarrow>
   normalized_advantage A = map (\<lambda>a. (a - mean A) / (std A + 1 / 10 ^ 8)) A"
  by (simp add: normalized_advantage_def)

lemma length_normalized: "length (normalized_advantage A) = length A"
  by (simp add: normalized_advantage_def Let_def)

lemma preprocess_data_InrD:
  assumes "preprocess_data self states next_states actions rewards log_probs dones = Inr out"
  shows "\<exists>values next_values A.
      Critic_values (critic self) states = Inr values
    \<and> Critic_values (critic self) next_states = Inr next_values
    \<and> gae_advantages (cfg self) rewards dones values next_values = Inr A
    \<and> advantage out = normalized_advantage A
    \<and> bcast2 ValueError (+) (normalized_advantage A) values = Inr (td_target out)"
  using assms by (auto simp: preprocess_data_def split: sum.splits)

text \<open>
  \<^bold>\<open>C2.\<close> Let \<open>A\<close> be the advantages before normalisation of a batch that
  \<^verbatim>\<open>preprocess_data\<close> accepts. For \<open>T > 1\<close> the advantage returned is
  \<open>(A - mean A) / (std A + 10\<^sup>-\<^sup>8)\<close>. For \<open>T = 1\<close> the advantage returned is \<open>A - mean A\<close>:
  the divisor is 1, not the standard deviation of the single sample, and the result is the
  array \<open>[0]\<close>.
\<close>

theorem advantage_normalized:
  assumes "preprocess_data self states next_states actions rewards log_probs dones = Inr out"
  shows "\<exists>values next_values A.
      Critic_values (critic self) states = Inr values
    \<and> Critic_values (critic self) next_states = Inr next_values
    \<and> gae_advantages (cfg self) rewards dones values next_values = Inr A
    \<and> length A = length rewards
    \<and> length (advantage out) = length rewards
    \<and> (1 < length rewards \<longrightarrow>
          advantage out = map (\<lambda>a. (a - mean A) / (std A + 1 / 10 ^ 8)) A)
    \<and> (length rewards = 1 \<longrightarrow>
          advantage out = map (\<lambda>a. (a - mean A) / 1) A
        \<and> advantage out = map (\<lambda>a. a - mean A) A
        \<and> advantage out = [0])"
proof -
  from preprocess_data_InrD[OF assms] obtain vs nvs A where
    v: "Critic_values (critic self) states = Inr vs"
    and nv: "Critic_values (critic self) next_states = Inr nvs"
    and A: "gae_advantages (cfg self) rewards dones vs nvs = Inr A"
    and out: "advantage out = normalized_advantage A"
    by blast
  have len: "length A = length rewards" using A by (rule gae_advantages_length)
  have many: "advantage out = map (\<lambda>a. (a - mean A) / (std A + 1 / 10 ^ 8)) A"
    if "1 < length rewards"
    using that len out by (simp add: normalized_many)
  have one: "advantage out = map (\<lambda>a. (a - mean A) / 1) A
        \<and> advantage out = map (\<lambda>a. a - mean A) A \<and> advantage out = [0]"
    if "length rewards = 1"
  proof -
    from that len obtain a where "A = [a]" by (cases A) auto
    then show ?thesis using out by (simp add: normalized_single mean_def)
  qed
  show ?thesis using v nv A len out many one by (auto simp: length_normalized)
qed

lemma example_preprocess:
  "preprocess_data (example_container 0 0 0) [ [0], [0]] [ [0], [0]] [0, 0] [1, 3] [0, 0] [0, 0]
     = Inr \<lparr>advantage = normalized_advantage [1, 3],
            td_target = map2 (+) (normalized_advantage [1, 3]) [0, 0]\<rparr>"
  by (simp add: example_simps length_normalized)

lemma example_preprocess_single:
  "preprocess_data (example_container 0 0 0) [ [0]] [ [0]] [0] [5] [0] [0]
     = Inr \<lparr>advantage = normalized_advantage [5],
            td_target = map2 (+) (normalized_advantage [5]) [0]\<rparr>"
  by (simp add: example_simps length_normalized)

theorem advantage_normalized_witness:
  "(preprocess_data (example_container 0 0 0) [ [0], [0]] [ [0], [0]] [0, 0] [1, 3] [0, 0] [0, 0]
      = Inr \<lparr>advantage = normalized_advantage [1, 3],
             td_target = map2 (+) (normalized_advantage [1, 3]) [0, 0]\<rparr>
    \<and> 1 < length [1, 3 :: real]
    \<and> (\<exists>A. gae_advantages (cfg (example_container 0 0 0)) [1, 3] [0, 0] [0, 0] [0, 0] = Inr A
           \<and> normalized_advantage [1, 3] = map (\<lambda>a. (a - mean A) / (std A + 1 / 10 ^ 8)) A))
   \<and> (preprocess_data (example_container 0 0 0) [ [0]] [ [0]] [0] [5] [0] [0]
        = Inr \<lparr>advantage = normalized_advantage [5],
               td_target = map2 (+) (normalized_advantage [5]) [0]\<rparr>
      \<and> length [5 :: real] = 1
      \<and> normalized_advantage [5] = [0])"
proof -
  have v2: "Critic_values (critic (example_container 0 0 0)) [ [0], [0]] = Inr [0, 0]"
    by (simp add: Critic_values_example eval_nat_numeral)
  from advantage_normalized [OF example_preprocess] v2
  have two: "\<exists>A. gae_advantages (cfg (example_container 0 0 0)) [1, 3] [0, 0] [0, 0] [0, 0] = Inr A
           \<and> normalized_advantage [1, 3] = map (\<lambda>a. (a - mean A) / (std A + 1 / 10 ^ 8)) A"
    by auto
  from advantage_normalized [OF example_preprocess_single]
  have one: "normalized_advantage [5] = [0]" by auto
  show ?thesis using example_preprocess example_preprocess_single two one by simp
qed

text \<open>The standard deviation of the advantage returned is not close to 1 on every batch with
  \<open>T > 1\<close>: on two transitions whose advantages before normalisation are equal, it is 0.\<close>

theorem advantage_unit_deviation_counterexample:
  "preprocess_data (example_container (99/100) (95/100) 0) [ [0], [0]] [ [0], [0]] [0, 0] [1, 1]
      [0, 0] [1, 1]
     = Inr \<lparr>advantage = [0, 0], td_target = [0, 0]\<rparr>
   \<and> std [0, 0] = 0"
  by (simp add: example_simps normalized_advantage_def std_def mean_def)

subsection \<open>The value target and the degenerate parameters\<close>

lemma sequence_InrD:
  "sequence rs = Inr xs \<Longrightarrow> length xs = length rs \<and> (\<forall>i<length rs. rs ! i = Inr (xs ! i))"
proof (induction rs arbitrary: xs)
  case Nil
  then show ?case by simp
next
  case (Cons r rs)
  then show ?case
    by (auto split: sum.splits simp: nth_Cons split: nat.splits)
qed

lemma linear_forward_length:
  "linear_forward l x = Inr y \<Longrightarrow> shape (data (weight l)) = [o', i] \<Longrightarrow> length y = o'"
  by (auto simp: linear_forward_def split: list.splits if_splits)

lemma fc_length:
  "fc m x = Inr y \<Longrightarrow> shape (data (weight (fc4 m))) = [o', i] \<Longrightarrow> length y = o'"
  by (auto simp: fc_def split: sum.splits dest: linear_forward_length)

lemma concat_singletons:
  "\<forall>r\<in>set rows. length r = 1 \<Longrightarrow> concat rows = map hd rows"
proof (induction rows)
  case Nil
  then show ?case by simp
next
  case (Cons r rows)
  then obtain a where "r = [a]" by (cases r) auto
  then show ?case using Cons by simp
qed

lemma Critic_values_width_one:
  assumes "Critic_values n states = Inr vs"
    and "shape (data (weight (fc4 (module_of n)))) = [1, w]"
  shows "length vs = length states
       \<and> (\<forall>t<length states. Critic_forward n (states ! t) = Inr [vs ! t])"
proof -
  from assms(1) obtain rows where
    rows: "sequence (map (Critic_forward n) states) = Inr rows" and vs: "vs = concat rows"
    by (auto simp: Critic_values_def split: sum.splits)
  from sequence_InrD[OF rows] have
    len: "length rows = length states"
    and nth: "\<forall>t<length states. Critic_forward n (states ! t) = Inr (rows ! t)"
    by auto
  have one: "\<forall>r\<in>set rows. length r = 1"
  proof
    fix r assume "r \<in> set rows"
    then obtain t where t: "t < length rows" "r = rows ! t" by (auto simp: in_set_conv_nth)
    then have "fc (module_of n) (states ! t) = Inr r"
      using nth len by (simp add: Critic_forward_def)
    then show "length r = 1" using assms(2) by (rule fc_length)
  qed
  then have c: "vs = map hd rows" using vs by (simp add: concat_singletons)
  have "rows ! t = [vs ! t]" if "t < length states" for t
  proof -
    have "length (rows ! t) = 1" using one that len by simp
    then obtain a where "rows ! t = [a]" by (cases "rows ! t") auto
    then show ?thesis using c that len by simp
  qed
  then show ?thesis using c len nth by simp
qed

text \<open>
  \<^bold>\<open>C4.\<close> On a batch that \<^verbatim>\<open>preprocess_data\<close> accepts, with one state per reward and the
  critic's output layer of width one (as \<^verbatim>\<open>Critic.__init__\<close> builds it), the target at every
  index is the normalised advantage at that index plus the value the critic gives to the
  state at that index. The function returns its two arrays only: the container, and with it
  the critic, is not changed.
\<close>

theorem td_target_is_advantage_plus_value:
  assumes "preprocess_data self states next_states actions rewards log_probs dones = Inr out"
    and "length states = length rewards"
    and "shape (data (weight (fc4 (module_of (critic self))))) = [1, 64]"
    and "t < length rewards"
  shows "\<exists>v. Critic_forward (critic self) (states ! t) = Inr [v]
           \<and> length (advantage out) = length rewards
           \<and> length (td_target out) = length rewards
           \<and> td_target out ! t = advantage out ! t + v"
proof -
  from preprocess_data_InrD[OF assms(1)] obtain vs nvs A where
    v: "Critic_values (critic self) states = Inr vs"
    and A: "gae_advantages (cfg self) rewards dones vs nvs = Inr A"
    and out: "advantage out = normalized_advantage A"
    and td: "bcast2 ValueError (+) (normalized_advantage A) vs = Inr (td_target out)"
    by blast
  from Critic_values_width_one[OF v assms(3)] assms(2,4) have
    lv: "length vs = length rewards"
    and cv: "Critic_forward (critic self) (states ! t) = Inr [vs ! t]"
    by auto
  have la: "length (normalized_advantage A) = length rewards"
    using gae_advantages_length[OF A] by (simp add: length_normalized)
  then have "td_target out = map2 (+) (normalized_advantage A) vs"
    using td lv by (simp add: bcast2_same)
  then show ?thesis using cv la lv out assms(4) by simp
qed

lemma gae_rec_lambda_zero: "gae_rec g 0 delta dones = delta"
  by (induction delta arbitrary: dones) simp_all

lemma gae_rec_gamma_zero: "gae_rec 0 l delta dones = delta"
  by (induction delta arbitrary: dones) simp_all

lemma example_critic_shape:
  "shape (data (weight (fc4 (module_of (critic (example_container g l v)))))) = [1, 64]"
  by (simp add: example_container_def Critic_def Linear_def)

theorem td_target_is_advantage_plus_value_witness:
  "preprocess_data (example_container 0 0 0) [ [0], [0]] [ [0], [0]] [0, 0] [1, 3] [0, 0] [0, 0]
     = Inr \<lparr>advantage = normalized_advantage [1, 3],
            td_target = map2 (+) (normalized_advantage [1, 3]) [0, 0]\<rparr>
   \<and> length [ [0], [0 :: real]] = length [1, 3 :: real]
   \<and> shape (data (weight (fc4 (module_of (critic (example_container 0 0 0)))))) = [1, 64]
   \<and> (1 :: nat) < length [1, 3 :: real]
   \<and> (\<exists>v. Critic_forward (critic (example_container 0 0 0)) ([ [0], [0]] ! 1) = Inr [v]
           \<and> length (advantage \<lparr>advantage = normalized_advantage [1, 3],
                td_target = map2 (+) (normalized_advantage [1, 3]) [0, 0]\<rparr>)
               = length [1, 3 :: real]
           \<and> length (td_target \<lparr>advantage = normalized_advantage [1, 3],
                td_target = map2 (+) (normalized_advantage [1, 3]) [0, 0]\<rparr>)
               = length [1, 3 :: real]
           \<and> td_target \<lparr>advantage = normalized_advantage [1, 3],
                td_target = map2 (+) (normalized_advantage [1, 3]) [0, 0]\<rparr> ! 1
             = advantage \<lparr>advantage = normalized_advantage [1, 3],
                td_target = map2 (+) (normalized_advantage [1, 3]) [0, 0]\<rparr> ! 1 + v)"
proof -
  have h2: "length [ [0], [0 :: real]] = length [1, 3 :: real]" by simp
  have h4: "(1 :: nat) < length [1, 3 :: real]" by simp
  show ?thesis
    using example_preprocess h2 example_critic_shape h4
      td_target_is_advantage_plus_value [OF example_preprocess h2 example_critic_shape h4]
    by (intro conjI)
qed

text \<open>
  \<^bold>\<open>C5.\<close> On an aligned batch that \<^verbatim>\<open>preprocess_data\<close> accepts: when LAMBDA is
  0 the advantages before normalisation are the residuals \<open>delta[t]\<close>, and when GAMMA is 0
  they are \<open>reward[t] - value[t]\<close>; the advantage returned is the normalisation of these.
\<close>

theorem gae_degenerate_parameters:
  assumes "preprocess_data self states next_states actions rewards log_probs dones = Inr out"
    and "Critic_values (critic self) states = Inr values"
    and "Critic_values (critic self) next_states = Inr next_values"
    and "length dones = length rewards" and "length values = length rewards"
    and "length next_values = length rewards"
  shows "(LAMBDA (cfg self) = 0 \<longrightarrow>
            gae_advantages (cfg self) rewards dones values next_values
              = Inr (map (\<lambda>t. rewards ! t + GAMMA (cfg self) * next_values ! t * (1 - dones ! t)
                                - values ! t) [0..<length rewards])
          \<and> gae_advantages (cfg self) rewards dones values next_values
              = compute_delta (GAMMA (cfg self)) rewards next_values dones values
          \<and> advantage out
              = normalized_advantage
                  (map (\<lambda>t. rewards ! t + GAMMA (cfg self) * next_values ! t * (1 - dones ! t)
                                - values ! t) [0..<length rewards]))
       \<and> (GAMMA (cfg self) = 0 \<longrightarrow>
            gae_advantages (cfg self) rewards dones values next_values
              = Inr (map (\<lambda>t. rewards ! t - values ! t) [0..<length rewards])
          \<and> advantage out
              = normalized_advantage (map (\<lambda>t. rewards ! t - values ! t) [0..<length rewards]))"
proof -
  from preprocess_data_InrD[OF assms(1)] assms(2,3) obtain A where
    A: "gae_advantages (cfg self) rewards dones values next_values = Inr A"
    and out: "advantage out = normalized_advantage A"
    by auto
  have A': "A = gae_rec (GAMMA (cfg self)) (LAMBDA (cfg self))
            (map (\<lambda>t. rewards ! t + GAMMA (cfg self) * next_values ! t * (1 - dones ! t)
                                - values ! t) [0..<length rewards]) dones"
    using A assms(4-6) by (simp add: gae_advantages_aligned)
  show ?thesis
    unfolding out A' using assms(4-6)
    by (simp add: gae_advantages_aligned compute_delta_aligned gae_rec_lambda_zero
        gae_rec_gamma_zero)
qed

lemma example_values:
  "Critic_values (critic (example_container 0 0 0)) [ [0], [0]] = Inr [0, 0]"
  by (simp add: Critic_values_example eval_nat_numeral)

theorem gae_degenerate_parameters_witness:
  "preprocess_data (example_container 0 0 0) [ [0], [0]] [ [0], [0]] [0, 0] [1, 3] [0, 0] [0, 0]
     = Inr \<lparr>advantage = normalized_advantage [1, 3],
            td_target = map2 (+) (normalized_advantage [1, 3]) [0, 0]\<rparr>
   \<and> Critic_values (critic (example_container 0 0 0)) [ [0], [0]] = Inr [0, 0]
   \<and> LAMBDA (cfg (example_container 0 0 0)) = 0
   \<and> GAMMA (cfg (example_container 0 0 0)) = 0
   \<and> gae_advantages (cfg (example_container 0 0 0)) [1, 3] [0, 0] [0, 0] [0, 0]
        = compute_delta (GAMMA (cfg (example_container 0 0 0))) [1, 3] [0, 0] [0, 0] [0, 0]
   \<and> gae_advantages (cfg (example_container 0 0 0)) [1, 3] [0, 0] [0, 0] [0, 0]
        = Inr (map (\<lambda>t. [1, 3] ! t - [0, 0] ! t) [0..<length [1, 3 :: real]])"
proof -
  have l: "LAMBDA (cfg (example_container 0 0 0)) = 0" "GAMMA (cfg (example_container 0 0 0)) = 0"
    by (simp_all add: cfg_example example_config_def)
  have len: "length [0, 0 :: real] = length [1, 3 :: real]" by simp
  show ?thesis
    using example_preprocess example_values l
      gae_degenerate_parameters [OF example_preprocess example_values example_values len len len]
    by (simp add: compute_delta_def bcast2_def)
qed

text \<open>The advantage returned is not the array of residuals: with GAMMA and LAMBDA 0, rewards
  \<open>[1, 3]\<close> and values 0, the residuals are \<open>[1, 3]\<close>, and the advantage returned is their
  normalisation.\<close>

theorem returned_advantage_is_not_delta_counterexample:
  "LAMBDA (cfg (example_container 0 0 0)) = 0
   \<and> GAMMA (cfg (example_container 0 0 0)) = 0
   \<and> Critic_values (critic (example_container 0 0 0)) [ [0], [0]] = Inr [0, 0]
   \<and> compute_delta (GAMMA (cfg (example_container 0 0 0))) [1, 3] [0, 0] [0, 0] [0, 0]
        = Inr [1, 3]
   \<and> preprocess_data (example_container 0 0 0) [ [0], [0]] [ [0], [0]] [0, 0] [1, 3] [0, 0] [0, 0]
        = Inr \<lparr>advantage = [- (100000000 / 100000001), 100000000 / 100000001],
               td_target = [- (100000000 / 100000001), 100000000 / 100000001]\<rparr>"
proof -
  have "std [1, 3] = 1" by (simp add: std_def mean_def)
  then have "normalized_advantage [1, 3] = [- (100000000 / 100000001), 100000000 / 100000001]"
    by (simp add: normalized_advantage_def mean_def)
  then show ?thesis
    using example_preprocess example_values
    by (simp add: cfg_example example_config_def compute_delta_def bcast2_def)
qed

section \<open>Checkpoints\<close>

subsection \<open>Missing and malformed files\<close>

lemma load_model_missing:
  "files w path = None \<Longrightarrow>
   load_model self path w
     = (None, self, w\<lparr>stdout := stdout w @ [''Model file not found at '' @ path @ ''.'']\<rparr>)"
  by (simp add: load_model_def)

lemma load_model_malformed:
  "files w path = Some ckpt \<Longrightarrow> malformed_for self ckpt \<Longrightarrow>
   \<exists>e self'. load_model self path w = (Some e, self', w) \<and> (e = KeyError \<or> e = RuntimeError)"
  by (auto simp: load_model_def malformed_for_def load_state_dict_def split: option.splits)

lemma load_model_wellformed:
  "files w path = Some ckpt \<Longrightarrow> \<not> malformed_for self ckpt \<Longrightarrow>
   fst (load_model self path w) = None"
  by (auto simp: load_model_def malformed_for_def load_state_dict_def split: option.splits)

text \<open>
  \<^bold>\<open>C7.\<close> When the checkpoint file does not exist, \<^verbatim>\<open>load_model\<close> raises nothing, prints
  that the file was not found and leaves the container as it was; the constructor then
  returns a container with the freshly initialised networks. When the file exists and is
  malformed for the container, \<^verbatim>\<open>load_model\<close> raises \<^verbatim>\<open>KeyError\<close> or \<^verbatim>\<open>RuntimeError\<close>, nothing
  catches it, and the constructor fails with it. A checkpoint that is not malformed loads
  without an error.
\<close>

theorem load_model_missing_or_malformed:
  "(files w path = None \<longrightarrow>
      load_model self path w
        = (None, self, w\<lparr>stdout := stdout w @ [''Model file not found at '' @ path @ ''.'']\<rparr>)
    \<and> ModelWrapper_init actor_init critic_init path rate c w
        = Inr (\<lparr>cfg = c,
                actor = Module (Actor (NUM_STATE c) (NUM_ACTION c) actor_init),
                critic = Module (Critic (NUM_STATE c) critic_init),
                actor_optimizer =
                  Adam (parameters (Actor (NUM_STATE c) (NUM_ACTION c) actor_init)) rate,
                critic_optimizer =
                  Adam (parameters (Critic (NUM_STATE c) critic_init)) rate\<rparr>,
               w\<lparr>stdout := stdout w @ [''Model file not found at '' @ path @ ''.'']\<rparr>))
   \<and> (files w path = Some ckpt \<and> malformed_for self ckpt \<longrightarrow>
        (\<exists>e self'. load_model self path w = (Some e, self', w)
                   \<and> (e = KeyError \<or> e = RuntimeError)))
   \<and> (files w path = Some ckpt
        \<and> malformed_for
             \<lparr>cfg = c,
              actor = Module (Actor (NUM_STATE c) (NUM_ACTION c) actor_init),
              critic = Module (Critic (NUM_STATE c) critic_init),
              actor_optimizer = Adam [] rate,
              critic_optimizer = Adam [] rate\<rparr> ckpt \<longrightarrow>
        (\<exists>e. ModelWrapper_init actor_init critic_init path rate c w = Inl e
              \<and> (e = KeyError \<or> e = RuntimeError)))
   \<and> (files w path = Some ckpt \<and> \<not> malformed_for self ckpt \<longrightarrow>
        fst (load_model self path w) = None)"
proof (intro conjI impI)
  assume "files w path = None"
  then show "load_model self path w
        = (None, self, w\<lparr>stdout := stdout w @ [''Model file not found at '' @ path @ ''.'']\<rparr>)"
    by (rule load_model_missing)
next
  assume "files w path = None"
  then show "ModelWrapper_init actor_init critic_init path rate c w
        = Inr (\<lparr>cfg = c,
                actor = Module (Actor (NUM_STATE c) (NUM_ACTION c) actor_init),
                critic = Module (Critic (NUM_STATE c) critic_init),
                actor_optimizer =
                  Adam (parameters (Actor (NUM_STATE c) (NUM_ACTION c) actor_init)) rate,
                critic_optimizer =
                  Adam (parameters (Critic (NUM_STATE c) critic_init)) rate\<rparr>,
               w\<lparr>stdout := stdout w @ [''Model file not found at '' @ path @ ''.'']\<rparr>)"
    by (simp add: ModelWrapper_init_def load_model_missing)
next
  assume "files w path = Some ckpt \<and> malformed_for self ckpt"
  then show "\<exists>e self'. load_model self path w = (Some e, self', w)
                   \<and> (e = KeyError \<or> e = RuntimeError)"
    using load_model_malformed[of w path ckpt self] by blast
next
  let ?self = "\<lparr>cfg = c,
              actor = Module (Actor (NUM_STATE c) (NUM_ACTION c) actor_init),
              critic = Module (Critic (NUM_STATE c) critic_init),
              actor_optimizer = Adam [] rate,
              critic_optimizer = Adam [] rate\<rparr>"
  assume "files w path = Some ckpt \<and> malformed_for ?self ckpt"
  then obtain e self' where "load_model ?self path w = (Some e, self', w)"
    "e = KeyError \<or> e = RuntimeError"
    using load_model_malformed[of w path ckpt ?self] by auto
  then show "\<exists>e. ModelWrapper_init actor_init critic_init path rate c w = Inl e
              \<and> (e = KeyError \<or> e = RuntimeError)"
    by (auto simp: ModelWrapper_init_def)
next
  assume "files w path = Some ckpt \<and> \<not> malformed_for self ckpt"
  then show "fst (load_model self path w) = None"
    by (simp add: load_model_wellformed)
qed

subsection \<open>Loading a state dictionary\<close>

lemma length_parameters: "length (parameters m) = 6"
  by (simp add: parameters_def)

lemma length_names: "length (names n) = 6"
  by (induction n) (simp_all add: param_names_def)

lemma distinct_names: "distinct (names n)"
  by (induction n) (simp_all add: param_names_def distinct_map inj_on_def)

lemma names_map_module: "names (map_module f n) = names n"
  by (induction n) simp_all

lemma module_of_map_module: "module_of (map_module f n) = f (module_of n)"
  by (induction n) simp_all

lemma parameters_set_parameters:
  assumes "length ps = 6"
  shows "parameters (set_parameters m ps) = ps"
proof -
  from assms obtain a b c d e f where "ps = [a, b, c, d, e, f]"
    by (auto simp: length_Suc_conv eval_nat_numeral)
  then show ?thesis by (simp add: set_parameters_def parameters_def)
qed

lemma loadable_iff:
  "loadable n sd \<longleftrightarrow>
     (\<forall>i<6. \<exists>t. map_of sd (names n ! i) = Some t
                \<and> shape t = shape (data (parameters (module_of n) ! i)))
     \<and> set (map fst sd) \<subseteq> set (names n)"
proof -
  have "list_all (param_loadable sd) (zip (names n) (parameters (module_of n)))
      \<longleftrightarrow> (\<forall>i<6. \<exists>t. map_of sd (names n ! i) = Some t
                \<and> shape t = shape (data (parameters (module_of n) ! i)))"
    by (auto simp: list_all_length length_names length_parameters param_loadable_def
        split: option.splits)
  moreover have "list_all (\<lambda>k. List.member (names n) k) (map fst sd)
      \<longleftrightarrow> set (map fst sd) \<subseteq> set (names n)"
    by (auto simp: list_all_iff)
  ultimately show ?thesis by (simp add: loadable_def)
qed

lemma loaded_data:
  assumes "loadable n sd"
  shows "map data (parameters (module_of (snd (load_state_dict n sd))))
           = map (\<lambda>k. the (map_of sd k)) (names n)"
proof -
  let ?ps = "map (load_param sd) (zip (names n) (parameters (module_of n)))"
  have "parameters (module_of (snd (load_state_dict n sd))) = ?ps"
    by (simp add: load_state_dict_def module_of_map_module parameters_set_parameters
        length_names length_parameters)
  moreover have "map data ?ps = map (\<lambda>k. the (map_of sd k)) (names n)"
  proof (rule nth_equalityI)
    show "length (map data ?ps) = length (map (\<lambda>k. the (map_of sd k)) (names n))"
      by (simp add: length_names length_parameters)
  next
    fix i assume "i < length (map data ?ps)"
    then have i: "i < 6" by (simp add: length_names length_parameters)
    with assms obtain t where "map_of sd (names n ! i) = Some t"
      "shape t = shape (data (parameters (module_of n) ! i))"
      by (auto simp: loadable_iff)
    then show "map data ?ps ! i = map (\<lambda>k. the (map_of sd k)) (names n) ! i"
      using i by (simp add: length_names length_parameters load_param_def)
  qed
  ultimately show ?thesis by simp
qed

lemma names_load: "names (snd (load_state_dict n sd)) = names n"
  by (simp add: load_state_dict_def names_map_module)

lemma map_of_loaded:
  assumes "loadable n sd"
  shows "map_of (state_dict (snd (load_state_dict n sd))) = map_of sd"
proof
  fix k
  have sd': "state_dict (snd (load_state_dict n sd))
      = map (\<lambda>k. (k, the (map_of sd k))) (names n)"
    unfolding state_dict_def names_load loaded_data[OF assms]
    by (simp add: zip_map2 zip_same_conv_map)
  show "map_of (state_dict (snd (load_state_dict n sd))) k = map_of sd k"
  proof (cases "k \<in> set (names n)")
    case True
    then obtain i where i: "i < 6" "k = names n ! i"
      by (auto simp: in_set_conv_nth length_names)
    with assms obtain t where "map_of sd k = Some t" by (auto simp: loadable_iff)
    moreover have "map_of (map (\<lambda>k. (k, the (map_of sd k))) (names n)) k
        = Some (the (map_of sd k))"
      using True by (simp add: map_of_map_restrict restrict_map_def)
    ultimately show ?thesis by (simp add: sd')
  next
    case False
    then have "map_of (state_dict (snd (load_state_dict n sd))) k = None"
      by (simp add: sd' map_of_map_restrict restrict_map_def)
    moreover have "k \<notin> set (map fst sd)" using False assms by (auto simp: loadable_iff)
    then have "map_of sd k = None" by (simp add: map_of_eq_None_iff)
    ultimately show ?thesis by simp
  qed
qed

text \<open>
  \<^bold>\<open>C10.\<close> When the file exists, its entry \<^verbatim>\<open>actor\<close> fits the actor, and its entry
  \<^verbatim>\<open>critic\<close> is missing or does not fit the critic, \<^verbatim>\<open>load_model\<close> raises, and the container
  it leaves behind has the actor already overwritten with the weights of the checkpoint.
\<close>

theorem load_model_not_atomic:
  assumes "files w path = Some ckpt"
    and "map_of ckpt ''actor'' = Some sd_actor"
    and "loadable (actor self) sd_actor"
    and "case map_of ckpt ''critic'' of
           None \<Rightarrow> True
         | Some sd_critic \<Rightarrow> \<not> loadable (critic self) sd_critic"
  shows "\<exists>e self'. load_model self path w = (Some e, self', w)
           \<and> (e = KeyError \<or> e = RuntimeError)
           \<and> actor self' = snd (load_state_dict (actor self) sd_actor)
           \<and> map_of (state_dict (actor self')) = map_of sd_actor
           \<and> map data (parameters (module_of (actor self')))
               = map (\<lambda>k. the (map_of sd_actor k)) (names (actor self))"
  using assms map_of_loaded[OF assms(3)] loaded_data[OF assms(3)]
  by (auto simp: load_model_def load_state_dict_def split: option.splits)

subsection \<open>Saving and loading again\<close>

lemma linear_forward_data:
  "data (weight l1) = data (weight l2) \<Longrightarrow> data (bias l1) = data (bias l2) \<Longrightarrow>
   linear_forward l1 x = linear_forward l2 x"
  by (simp add: linear_forward_def split: list.splits)

lemma fc_data:
  assumes "map data (parameters m1) = map data (parameters m2)"
  shows "fc m1 x = fc m2 x"
proof -
  from assms have "data (weight (fc0 m1)) = data (weight (fc0 m2))"
    "data (bias (fc0 m1)) = data (bias (fc0 m2))"
    "data (weight (fc2 m1)) = data (weight (fc2 m2))"
    "data (bias (fc2 m1)) = data (bias (fc2 m2))"
    "data (weight (fc4 m1)) = data (weight (fc4 m2))"
    "data (bias (fc4 m1)) = data (bias (fc4 m2))"
    by (simp_all add: parameters_def)
  then have "linear_forward (fc0 m1) = linear_forward (fc0 m2)"
    "linear_forward (fc2 m1) = linear_forward (fc2 m2)"
    "linear_forward (fc4 m1) = linear_forward (fc4 m2)"
    by (auto intro: linear_forward_data)
  then show ?thesis by (simp add: fc_def split: sum.splits)
qed

lemma module_of_getattr: "getattr_module n = Module m \<Longrightarrow> module_of n = m"
  by (cases n) auto

lemma map_of_zip_names_nth:
  "i < 6 \<Longrightarrow> length ts = 6 \<Longrightarrow> map_of (zip (names n) ts) (names n ! i) = Some (ts ! i)"
  using map_of_zip_nth[of "names n" ts i] by (simp add: length_names distinct_names)

lemma loadable_same_shapes:
  assumes "map (shape \<circ> data) (parameters m1) = map (shape \<circ> data) (parameters m2)"
  shows "loadable (Module m2) (state_dict (Module m1))"
proof -
  have "shape (data (parameters m1 ! i)) = shape (data (parameters m2 ! i))" if "i < 6" for i
    using arg_cong[OF assms, of "\<lambda>xs. xs ! i"] that by (simp add: length_parameters)
  moreover have "map fst (state_dict (Module m1)) = names (Module m1)"
    by (simp add: state_dict_def length_names length_parameters del: names.simps)
  ultimately show ?thesis
    unfolding loadable_iff state_dict_def
    using map_of_zip_names_nth[of _ "map data (parameters m1)" "Module m1"]
    by (simp add: length_parameters)
qed

lemma loaded_same_shapes:
  assumes "map (shape \<circ> data) (parameters m1) = map (shape \<circ> data) (parameters m2)"
  shows "map data (parameters (module_of (snd (load_state_dict (Module m2) (state_dict (Module m1))))))
           = map data (parameters m1)"
proof -
  have "map (\<lambda>k. the (map_of (state_dict (Module m1)) k)) (names (Module m2))
      = map data (parameters m1)"
  proof (rule nth_equalityI)
    show "length (map (\<lambda>k. the (map_of (state_dict (Module m1)) k)) (names (Module m2)))
        = length (map data (parameters m1))"
      by (simp add: length_parameters param_names_def)
  next
    fix i assume "i < length (map (\<lambda>k. the (map_of (state_dict (Module m1)) k)) (names (Module m2)))"
    then have i: "i < 6" by (simp add: param_names_def)
    then show "map (\<lambda>k. the (map_of (state_dict (Module m1)) k)) (names (Module m2)) ! i
        = map data (parameters m1) ! i"
      using map_of_zip_names_nth[of i "map data (parameters m1)" "Module m1"] length_names[of "Module m1"]
      by (simp add: state_dict_def length_parameters)
  qed
  then show ?thesis using loaded_data[OF loadable_same_shapes[OF assms]] by simp
qed

lemma load_model_ok:
  assumes "files w path = Some ckpt"
    and "map_of ckpt ''actor'' = Some sd_actor" and "loadable (actor self) sd_actor"
    and "map_of ckpt ''critic'' = Some sd_critic" and "loadable (critic self) sd_critic"
  shows "load_model self path w
     = (None,
        self\<lparr>actor := snd (load_state_dict (actor self) sd_actor),
             critic := snd (load_state_dict (critic self) sd_critic)\<rparr>,
        w\<lparr>stdout := stdout w @ [''Model loaded successfully at '' @ path @ ''.'']\<rparr>)"
  using assms by (simp add: load_model_def load_state_dict_def)

text \<open>
  \<^bold>\<open>C8.\<close> For a container whose actor is a raw module \<open>ma\<close> or the adapter's wrapper around
  \<open>ma\<close>, and whose critic is a raw module \<open>mc\<close> or the wrapper around \<open>mc\<close>, \<^verbatim>\<open>save_model\<close>
  writes the dictionary with exactly the two keys \<^verbatim>\<open>actor\<close> and \<^verbatim>\<open>critic\<close>, in this order,
  holding the parameters of \<open>ma\<close> and of \<open>mc\<close> under their plain names: the wrapper and its
  prefix \<^verbatim>\<open>module.\<close> are gone. A container constructed afterwards from that file with networks
  of the same shapes loads without an error, and its actor and its critic give the outputs
  of the saved ones on every input.
\<close>

theorem save_then_load_round_trip:
  assumes "actor self = Module ma \<or> actor self = DistributedDataParallel (Module ma)"
    and "critic self = Module mc \<or> critic self = DistributedDataParallel (Module mc)"
    and "map (shape \<circ> data) (parameters ma)
           = map (shape \<circ> data) (parameters (Actor (NUM_STATE c) (NUM_ACTION c) actor_init))"
    and "map (shape \<circ> data) (parameters mc)
           = map (shape \<circ> data) (parameters (Critic (NUM_STATE c) critic_init))"
  shows "files (save_model self path w) path
           = Some [(''actor'', zip param_names (map data (parameters ma))),
                   (''critic'', zip param_names (map data (parameters mc)))]
       \<and> (\<exists>loaded w'.
            ModelWrapper_init actor_init critic_init path rate c (save_model self path w)
              = Inr (loaded, w')
          \<and> map data (parameters (module_of (actor loaded))) = map data (parameters ma)
          \<and> map data (parameters (module_of (critic loaded))) = map data (parameters mc)
          \<and> (\<forall>x. Actor_forward (actor loaded) x = Actor_forward (actor self) x)
          \<and> (\<forall>x. Critic_forward (critic loaded) x = Critic_forward (critic self) x))"
proof -
  let ?fa = "Actor (NUM_STATE c) (NUM_ACTION c) actor_init"
  let ?fc = "Critic (NUM_STATE c) critic_init"
  let ?w = "save_model self path w"
  have ga: "getattr_module (actor self) = Module ma"
    and gc: "getattr_module (critic self) = Module mc"
    using assms(1,2) by auto
  have ma: "module_of (actor self) = ma" and mc: "module_of (critic self) = mc"
    using assms(1,2) by auto
  have saved: "files ?w path
      = Some [(''actor'', state_dict (Module ma)), (''critic'', state_dict (Module mc))]"
    using ga gc by (simp add: save_model_def)
  let ?a = "snd (load_state_dict (Module ?fa) (state_dict (Module ma)))"
  let ?k = "snd (load_state_dict (Module ?fc) (state_dict (Module mc)))"
  have da: "map data (parameters (module_of ?a)) = map data (parameters ma)"
    by (rule loaded_same_shapes[OF assms(3)])
  have dk: "map data (parameters (module_of ?k)) = map data (parameters mc)"
    by (rule loaded_same_shapes[OF assms(4)])
  let ?self = "\<lparr>cfg = c, actor = Module ?fa, critic = Module ?fc,
                 actor_optimizer = Adam [] rate, critic_optimizer = Adam [] rate\<rparr>"
  have "load_model ?self path ?w
     = (None, ?self\<lparr>actor := ?a, critic := ?k\<rparr>,
        ?w\<lparr>stdout := stdout ?w @ [''Model loaded successfully at '' @ path @ ''.'']\<rparr>)"
    using load_model_ok[of ?w path _ "state_dict (Module ma)" ?self "state_dict (Module mc)"]
      saved loadable_same_shapes[OF assms(3)] loadable_same_shapes[OF assms(4)]
    by simp
  then obtain loaded w' where
    init: "ModelWrapper_init actor_init critic_init path rate c ?w = Inr (loaded, w')"
    and a: "actor loaded = ?a" and k: "critic loaded = ?k"
    by (simp add: ModelWrapper_init_def)
  have "Actor_forward (actor loaded) x = Actor_forward (actor self) x" for x
    using fc_data[of "module_of ?a" ma x] da by (simp add: Actor_forward_def a ma)
  moreover have "Critic_forward (critic loaded) x = Critic_forward (critic self) x" for x
    using fc_data[of "module_of ?k" mc x] dk by (simp add: Critic_forward_def k mc)
  ultimately show ?thesis
    using saved init da dk a k by (simp add: state_dict_def)
qed

subsection \<open>Concrete instances\<close>

lemma example_actor: "actor (example_container g l v) = Module (Actor 1 2 (const_init 1 2 0))"
  and example_critic: "critic (example_container g l v) = Module (Critic 1 (const_init 1 1 v))"
  by (simp_all add: example_container_def)

lemma Actor_shapes:
  "map (shape \<circ> data) (parameters (Actor n k i)) = [ [64, n], [64], [64, 64], [64], [k, 64], [k]]"
  by (simp add: Actor_def Linear_def parameters_def)

lemma Critic_shapes:
  "map (shape \<circ> data) (parameters (Critic n i)) = [ [64, n], [64], [64, 64], [64], [1, 64], [1]]"
  by (simp add: Critic_def Linear_def parameters_def)

lemma example_loadable:
  "loadable (actor (example_container g l v)) (state_dict (Module (Actor 1 2 i)))"
  unfolding example_actor by (rule loadable_same_shapes) (simp add: Actor_shapes)

lemma Actor_mismatch:
  "\<not> loadable (Module (Actor 1 2 i)) (state_dict (Module (Actor 3 2 j)))"
  by (simp add: loadable_def state_dict_def param_names_def parameters_def
      Actor_def Linear_def param_loadable_def)

lemma example_critic_loadable:
  "loadable (critic (example_container g l v)) (state_dict (Module (Critic 1 i)))"
  unfolding example_critic by (rule loadable_same_shapes) (simp add: Critic_shapes)

theorem load_model_missing_or_malformed_witness:
  "(files (world_with None) ''model.pt'' = None
    \<and> load_model (example_container 0 0 0) ''model.pt'' (world_with None)
        = (None, example_container 0 0 0,
           (world_with None)\<lparr>stdout := stdout (world_with None)
                                  @ [''Model file not found at '' @ ''model.pt'' @ ''.'']\<rparr>)
    \<and> (\<exists>self w'. ModelWrapper_init (const_init 1 2 0) (const_init 1 1 0) ''model.pt'' (1/1000)
                     (example_config 0 0) (world_with None) = Inr (self, w')
                \<and> actor self = Module (Actor 1 2 (const_init 1 2 0))
                \<and> critic self = Module (Critic 1 (const_init 1 1 0))))
   \<and> (files (world_with (Some bad_checkpoint)) ''model.pt'' = Some bad_checkpoint
      \<and> malformed_for (example_container 0 0 0) bad_checkpoint
      \<and> (\<exists>e self'. load_model (example_container 0 0 0) ''model.pt''
                      (world_with (Some bad_checkpoint))
                    = (Some e, self', world_with (Some bad_checkpoint)))
      \<and> malformed_for
           \<lparr>cfg = example_config 0 0,
            actor = Module (Actor (NUM_STATE (example_config 0 0))
                              (NUM_ACTION (example_config 0 0)) (const_init 1 2 0)),
            critic = Module (Critic (NUM_STATE (example_config 0 0)) (const_init 1 1 0)),
            actor_optimizer = Adam [] (1/1000),
            critic_optimizer = Adam [] (1/1000)\<rparr> bad_checkpoint
      \<and> (\<exists>e. ModelWrapper_init (const_init 1 2 0) (const_init 1 1 0) ''model.pt'' (1/1000)
                (example_config 0 0) (world_with (Some bad_checkpoint)) = Inl e))
   \<and> (files (world_with (Some good_checkpoint)) ''model.pt'' = Some good_checkpoint
      \<and> \<not> malformed_for (example_container 0 0 0) good_checkpoint
      \<and> fst (load_model (example_container 0 0 0) ''model.pt''
                (world_with (Some good_checkpoint))) = None)"
proof -
  let ?ex = "example_container 0 0 0"
  let ?fresh = "\<lparr>cfg = example_config 0 0,
            actor = Module (Actor (NUM_STATE (example_config 0 0))
                              (NUM_ACTION (example_config 0 0)) (const_init 1 2 0)),
            critic = Module (Critic (NUM_STATE (example_config 0 0)) (const_init 1 1 0)),
            actor_optimizer = Adam [] (1/1000),
            critic_optimizer = Adam [] (1/1000)\<rparr>"
  have n: "files (world_with None) ''model.pt'' = None"
    and b: "files (world_with (Some bad_checkpoint)) ''model.pt'' = Some bad_checkpoint"
    and g: "files (world_with (Some good_checkpoint)) ''model.pt'' = Some good_checkpoint"
    by (simp_all add: world_with_def)
  have mb: "malformed_for ?ex bad_checkpoint"
    by (simp add: malformed_for_def bad_checkpoint_def example_actor Actor_mismatch)
  have mf: "malformed_for ?fresh bad_checkpoint"
    by (simp add: malformed_for_def bad_checkpoint_def example_config_def Actor_mismatch)
  have mg: "\<not> malformed_for ?ex good_checkpoint"
    using example_loadable[of 0 0 0 "const_init 1 2 5"]
      example_critic_loadable[of 0 0 0 "const_init 1 1 7"]
    by (simp add: malformed_for_def good_checkpoint_def)
  note missing = load_model_missing_or_malformed
        [of "world_with None" "''model.pt''" ?ex "const_init 1 2 0" "const_init 1 1 0"
            "1/1000" "example_config 0 0" bad_checkpoint]
  note bad = load_model_missing_or_malformed
        [of "world_with (Some bad_checkpoint)" "''model.pt''" ?ex "const_init 1 2 0"
            "const_init 1 1 0" "1/1000" "example_config 0 0" bad_checkpoint]
  note good = load_model_missing_or_malformed
        [of "world_with (Some good_checkpoint)" "''model.pt''" ?ex "const_init 1 2 0"
            "const_init 1 1 0" "1/1000" "example_config 0 0" good_checkpoint]
  have 1: "load_model ?ex ''model.pt'' (world_with None)
        = (None, ?ex,
           (world_with None)\<lparr>stdout := stdout (world_with None)
                                  @ [''Model file not found at '' @ ''model.pt'' @ ''.'']\<rparr>)"
    using missing n by blast
  have 2: "\<exists>self w'. ModelWrapper_init (const_init 1 2 0) (const_init 1 1 0) ''model.pt'' (1/1000)
                     (example_config 0 0) (world_with None) = Inr (self, w')
                \<and> actor self = Module (Actor 1 2 (const_init 1 2 0))
                \<and> critic self = Module (Critic 1 (const_init 1 1 0))"
    using missing n by (simp add: example_config_def)
  have 3: "\<exists>e self'. load_model ?ex ''model.pt'' (world_with (Some bad_checkpoint))
                    = (Some e, self', world_with (Some bad_checkpoint))"
    using bad b mb by blast
  have 4: "\<exists>e. ModelWrapper_init (const_init 1 2 0) (const_init 1 1 0) ''model.pt'' (1/1000)
                (example_config 0 0) (world_with (Some bad_checkpoint)) = Inl e"
    using bad b mf by blast
  have 5: "fst (load_model ?ex ''model.pt'' (world_with (Some good_checkpoint))) = None"
    using good g mg by blast
  show ?thesis using n b g mb mf mg 1 2 3 4 5 by (intro conjI)
qed

theorem load_model_not_atomic_witness:
  "files \<lparr>files = [''model.pt'' \<mapsto> [(''actor'', state_dict (Module (Actor 1 2 (const_init 1 2 5))))]],
          stdout = []\<rparr> ''model.pt''
     = Some [(''actor'', state_dict (Module (Actor 1 2 (const_init 1 2 5))))]
   \<and> map_of [(''actor'', state_dict (Module (Actor 1 2 (const_init 1 2 5))))] ''actor''
       = Some (state_dict (Module (Actor 1 2 (const_init 1 2 5))))
   \<and> loadable (actor (example_container 0 0 0)) (state_dict (Module (Actor 1 2 (const_init 1 2 5))))
   \<and> map_of [(''actor'', state_dict (Module (Actor 1 2 (const_init 1 2 5))))] ''critic'' = None
   \<and> (\<exists>e self'.
         load_model (example_container 0 0 0) ''model.pt''
           \<lparr>files = [''model.pt'' \<mapsto> [(''actor'', state_dict (Module (Actor 1 2 (const_init 1 2 5))))]],
            stdout = []\<rparr>
         = (Some e, self',
            \<lparr>files = [''model.pt'' \<mapsto> [(''actor'', state_dict (Module (Actor 1 2 (const_init 1 2 5))))]],
             stdout = []\<rparr>)
         \<and> map_of (state_dict (actor self'))
             = map_of (state_dict (Module (Actor 1 2 (const_init 1 2 5)))))"
proof -
  let ?sd = "state_dict (Module (Actor 1 2 (const_init 1 2 5)))"
  let ?w = "\<lparr>files = [''model.pt'' \<mapsto> [(''actor'', ?sd)]], stdout = []\<rparr>"
  have h1: "files ?w ''model.pt'' = Some [(''actor'', ?sd)]" by simp
  have h2: "map_of [(''actor'', ?sd)] ''actor'' = Some ?sd" by simp
  have h3: "loadable (actor (example_container 0 0 0)) ?sd" by (rule example_loadable)
  have h4: "case map_of [(''actor'', ?sd)] ''critic'' of
              None \<Rightarrow> True
            | Some sd_critic \<Rightarrow> \<not> loadable (critic (example_container 0 0 0)) sd_critic"
    by simp
  have h5: "map_of [(''actor'', ?sd)] ''critic'' = None" by simp
  from load_model_not_atomic [OF h1 h2 h3 h4] have
    "\<exists>e self'. load_model (example_container 0 0 0) ''model.pt'' ?w = (Some e, self', ?w)
         \<and> map_of (state_dict (actor self')) = map_of ?sd"
    by blast
  then show ?thesis using h1 h2 h3 h5 by (intro conjI)
qed

lemma wrapped_actor:
  "actor (wrapped_container v) = DistributedDataParallel (Module (Actor 1 2 (const_init 1 2 0)))"
  and wrapped_critic:
  "critic (wrapped_container v) = DistributedDataParallel (Module (Critic 1 (const_init 1 1 v)))"
  by (simp_all add: wrapped_container_def example_container_def)

lemma wrapped_critic_value: "Critic_forward (critic (wrapped_container v)) [0] = Inr [v]"
  using fc_Critic_const[of "[0]" 1 v] by (simp add: Critic_forward_def wrapped_critic)

text \<open>The wrapped container, whose critic values every state at 3, is saved, and a container
  whose fresh critic would value every state at 9 is constructed from the file; then the
  same for the container with raw networks.\<close>

theorem save_then_load_round_trip_witness:
  "(actor (wrapped_container 3) = DistributedDataParallel (Module (Actor 1 2 (const_init 1 2 0)))
    \<and> critic (wrapped_container 3)
        = DistributedDataParallel (Module (Critic 1 (const_init 1 1 3)))
    \<and> files (save_model (wrapped_container 3) ''model.pt'' (world_with None)) ''model.pt''
        = Some [(''actor'', zip param_names
                              (map data (parameters (Actor 1 2 (const_init 1 2 0))))),
                (''critic'', zip param_names
                               (map data (parameters (Critic 1 (const_init 1 1 3)))))]
    \<and> (\<exists>loaded w'.
          ModelWrapper_init (const_init 1 2 7) (const_init 1 1 9) ''model.pt'' (1/1000)
            (example_config 0 0)
            (save_model (wrapped_container 3) ''model.pt'' (world_with None))
            = Inr (loaded, w')
        \<and> (\<forall>x. Actor_forward (actor loaded) x = Actor_forward (actor (wrapped_container 3)) x)
        \<and> (\<forall>x. Critic_forward (critic loaded) x
                 = Critic_forward (critic (wrapped_container 3)) x)
        \<and> Critic_forward (critic loaded) [0] = Inr [3]))
   \<and> (actor (example_container 0 0 3) = Module (Actor 1 2 (const_init 1 2 0))
      \<and> critic (example_container 0 0 3) = Module (Critic 1 (const_init 1 1 3))
      \<and> files (save_model (example_container 0 0 3) ''model.pt'' (world_with None)) ''model.pt''
          = Some [(''actor'', zip param_names
                                (map data (parameters (Actor 1 2 (const_init 1 2 0))))),
                  (''critic'', zip param_names
                                 (map data (parameters (Critic 1 (const_init 1 1 3)))))]
      \<and> (\<exists>loaded w'.
            ModelWrapper_init (const_init 1 2 7) (const_init 1 1 9) ''model.pt'' (1/1000)
              (example_config 0 0)
              (save_model (example_container 0 0 3) ''model.pt'' (world_with None))
              = Inr (loaded, w')
          \<and> (\<forall>x. Critic_forward (critic loaded) x
                   = Critic_forward (critic (example_container 0 0 3)) x)))"
proof -
  let ?ma = "Actor 1 2 (const_init 1 2 0)" and ?mc = "Critic 1 (const_init 1 1 3)"
  have w1: "actor (wrapped_container 3) = Module ?ma
            \<or> actor (wrapped_container 3) = DistributedDataParallel (Module ?ma)"
    and w2: "critic (wrapped_container 3) = Module ?mc
            \<or> critic (wrapped_container 3) = DistributedDataParallel (Module ?mc)"
    by (simp_all add: wrapped_actor wrapped_critic)
  have r1: "actor (example_container 0 0 3) = Module ?ma
            \<or> actor (example_container 0 0 3) = DistributedDataParallel (Module ?ma)"
    and r2: "critic (example_container 0 0 3) = Module ?mc
            \<or> critic (example_container 0 0 3) = DistributedDataParallel (Module ?mc)"
    by (simp_all add: example_actor example_critic)
  have h3: "map (shape \<circ> data) (parameters ?ma)
       = map (shape \<circ> data)
           (parameters (Actor (NUM_STATE (example_config 0 0)) (NUM_ACTION (example_config 0 0))
              (const_init 1 2 7)))"
    by (simp add: Actor_shapes example_config_def)
  have h4: "map (shape \<circ> data) (parameters ?mc)
       = map (shape \<circ> data)
           (parameters (Critic (NUM_STATE (example_config 0 0)) (const_init 1 1 9)))"
    by (simp add: Critic_shapes example_config_def)
  note wrapped = save_then_load_round_trip
         [OF w1 w2 h3 h4, of "''model.pt''" "world_with None" "1/1000"]
  note raw = save_then_load_round_trip
         [OF r1 r2 h3 h4, of "''model.pt''" "world_with None" "1/1000"]
  have 1: "files (save_model (wrapped_container 3) ''model.pt'' (world_with None)) ''model.pt''
        = Some [(''actor'', zip param_names (map data (parameters ?ma))),
                (''critic'', zip param_names (map data (parameters ?mc)))]"
    using wrapped by blast
  have 2: "\<exists>loaded w'.
          ModelWrapper_init (const_init 1 2 7) (const_init 1 1 9) ''model.pt'' (1/1000)
            (example_config 0 0)
            (save_model (wrapped_container 3) ''model.pt'' (world_with None))
            = Inr (loaded, w')
        \<and> (\<forall>x. Actor_forward (actor loaded) x = Actor_forward (actor (wrapped_container 3)) x)
        \<and> (\<forall>x. Critic_forward (critic loaded) x
                 = Critic_forward (critic (wrapped_container 3)) x)
        \<and> Critic_forward (critic loaded) [0] = Inr [3]"
    using wrapped wrapped_critic_value[of 3] by fastforce
  have 3: "files (save_model (example_container 0 0 3) ''model.pt'' (world_with None)) ''model.pt''
          = Some [(''actor'', zip param_names (map data (parameters ?ma))),
                  (''critic'', zip param_names (map data (parameters ?mc)))]"
    using raw by blast
  have 4: "\<exists>loaded w'.
            ModelWrapper_init (const_init 1 2 7) (const_init 1 1 9) ''model.pt'' (1/1000)
              (example_config 0 0)
              (save_model (example_container 0 0 3) ''model.pt'' (world_with None))
              = Inr (loaded, w')
          \<and> (\<forall>x. Critic_forward (critic loaded) x
                   = Critic_forward (critic (example_container 0 0 3)) x)"
    using raw by blast
  show ?thesis
    using wrapped_actor[of 3] wrapped_critic[of 3] example_actor[of 0 0 3]
      example_critic[of 0 0 3] 1 2 3 4
    by (intro conjI)
qed

section \<open>The worker\<close>

lemma model_setattr: "model (setattr w k v) = model w"
  by (simp add: setattr_def)

lemma net_not_wrapped_self: "n \<noteq> DistributedDataParallel n"
  by (induction n) auto

text \<open>
  \<^bold>\<open>C9.\<close> What \<^verbatim>\<open>Worker.prepare_model\<close> does: each network of the container is handed to the
  adapter, and the result is stored in an attribute of the worker of that name. The container
  is not changed: its \<^verbatim>\<open>actor\<close> and \<^verbatim>\<open>critic\<close> are the networks they were (with the wrapping
  adapter they are not the wrapped ones), and \<^verbatim>\<open>train_model\<close> and \<^verbatim>\<open>save_model\<close> of the worker,
  which go through the container, do what they did before the call.
\<close>

theorem prepare_model_does_not_rebind:
  "model (prepare_model adapter self) = model self
   \<and> get_model (model (prepare_model adapter self))
       = [(''actor'', actor (model self)), (''critic'', critic (model self))]
   \<and> map_of (attrs (prepare_model adapter self)) ''actor'' = Some (adapter (actor (model self)))
   \<and> map_of (attrs (prepare_model adapter self)) ''critic'' = Some (adapter (critic (model self)))
   \<and> actor (model (prepare_model DistributedDataParallel self))
       \<noteq> DistributedDataParallel (actor (model self))
   \<and> critic (model (prepare_model DistributedDataParallel self))
       \<noteq> DistributedDataParallel (critic (model self))
   \<and> Worker_save_model (prepare_model adapter self) path w = Worker_save_model self path w
   \<and> Worker_train_model ag (prepare_model adapter self) batch_state batch_next_state
         batch_action batch_reward batch_log_prob batch_done batch
       = (case Worker_train_model ag self batch_state batch_next_state batch_action batch_reward
                 batch_log_prob batch_done batch of
            Inl e \<Rightarrow> Inl e
          | Inr r \<Rightarrow> Inr (fst r, (snd r)\<lparr>attrs := attrs (prepare_model adapter self)\<rparr>))"
proof -
  have m: "model (prepare_model adapter self) = model self" for adapter
    by (simp add: prepare_model_def get_model_def model_setattr)
  have a: "attrs (prepare_model adapter self)
      = (''critic'', adapter (critic (model self))) # (''actor'', adapter (actor (model self)))
        # filter (\<lambda>kv. fst kv \<noteq> ''critic'') (filter (\<lambda>kv. fst kv \<noteq> ''actor'') (attrs self))"
    by (simp add: prepare_model_def get_model_def setattr_def)
  show ?thesis
    using net_not_wrapped_self
    by (auto simp: m a get_model_def Worker_save_model_def Worker_train_model_def
        prepare_model_def setattr_def split: sum.splits)
qed

section \<open>The update\<close>

subsection \<open>The two losses\<close>

lemma tensor_mean_InrD:
  "tensor_mean xs = Inr mu \<Longrightarrow> xs \<noteq> [] \<and> mu = sum_list xs / real (length xs)"
  by (auto simp: tensor_mean_def split: if_splits)

lemma sum_list_as_sum: "length xs = B \<Longrightarrow> sum_list xs = (\<Sum>i<B. xs ! i)"
  by (auto simp: sum_list_sum_nth atLeast0LessThan)

lemma actor_loss_of_InrD:
  assumes "actor_loss_of c batch_state batch_action batch_log_prob batch_advantage n = Inr al"
    and "length batch_state = B" "length batch_action = B" "length batch_log_prob = B"
    and "length batch_advantage = B"
  shows "\<exists>new_log_prob.
      1 \<le> B
    \<and> length new_log_prob = B
    \<and> (\<forall>i<B. \<exists>pi. Actor_forward n (batch_state ! i) = Inr pi
                    \<and> log_prob pi (batch_action ! i) = Inr (new_log_prob ! i))
    \<and> al = - (\<Sum>i<B. min (exp (new_log_prob ! i - batch_log_prob ! i) * batch_advantage ! i)
                        (min (max (exp (new_log_prob ! i - batch_log_prob ! i)) (1 - EPS_CLIP c))
                             (1 + EPS_CLIP c) * batch_advantage ! i)) / real B"
proof -
  from assms(1) obtain dists nlp ratio pg clipped m mu where
    d: "sequence (map (Actor_forward n) batch_state) = Inr dists"
    and lp: "batch_log_prob_of dists batch_action = Inr nlp"
    and r: "bcast2 RuntimeError (\<lambda>new old. exp (new - old)) nlp batch_log_prob = Inr ratio"
    and pg: "bcast2 RuntimeError (*) ratio batch_advantage = Inr pg"
    and cl: "bcast2 RuntimeError (*) (map (clamp (1 - EPS_CLIP c) (1 + EPS_CLIP c)) ratio)
               batch_advantage = Inr clipped"
    and m: "bcast2 RuntimeError min pg clipped = Inr m"
    and mu: "tensor_mean m = Inr mu" and al: "al = - mu"
    by (auto simp: actor_loss_of_def split: sum.splits)
  from sequence_InrD[OF d] assms(2) have
    ld: "length dists = B"
    and fd: "\<forall>i<B. Actor_forward n (batch_state ! i) = Inr (dists ! i)"
    by auto
  from lp ld assms(3) have "sequence (map2 log_prob dists batch_action) = Inr nlp"
    by (auto simp: batch_log_prob_of_def bcast2_same split: sum.splits)
  from sequence_InrD[OF this] ld assms(3) have
    ln: "length nlp = B"
    and fn: "\<forall>i<B. log_prob (dists ! i) (batch_action ! i) = Inr (nlp ! i)"
    by auto
  have ratio: "ratio = map2 (\<lambda>new old. exp (new - old)) nlp batch_log_prob"
    using r ln assms(4) by (simp add: bcast2_same)
  then have lr: "length ratio = B" using ln assms(4) by simp
  have pg': "pg = map2 (*) ratio batch_advantage"
    using pg lr assms(5) by (simp add: bcast2_same)
  have cl': "clipped = map2 (*) (map (clamp (1 - EPS_CLIP c) (1 + EPS_CLIP c)) ratio)
                         batch_advantage"
    using cl lr assms(5) by (simp add: bcast2_same)
  have m': "m = map2 min pg clipped"
    using m pg' cl' lr assms(5) by (simp add: bcast2_same)
  have lm: "length m = B" using m' pg' cl' lr assms(5) by simp
  have nth: "m ! i = min (exp (nlp ! i - batch_log_prob ! i) * batch_advantage ! i)
                        (min (max (exp (nlp ! i - batch_log_prob ! i)) (1 - EPS_CLIP c))
                             (1 + EPS_CLIP c) * batch_advantage ! i)" if "i < B" for i
    using that ln lr assms(4,5) by (simp add: m' pg' cl' ratio clamp_def)
  from tensor_mean_InrD[OF mu] lm have B: "1 \<le> B"
    and "mu = sum_list m / real B" by (auto simp: Suc_le_eq)
  then have "mu = (\<Sum>i<B. m ! i) / real B" using sum_list_as_sum[OF lm] by simp
  then have "al = - (\<Sum>i<B. min (exp (nlp ! i - batch_log_prob ! i) * batch_advantage ! i)
                        (min (max (exp (nlp ! i - batch_log_prob ! i)) (1 - EPS_CLIP c))
                             (1 + EPS_CLIP c) * batch_advantage ! i)) / real B"
    using nth al by simp
  then show ?thesis using B ln fd fn by blast
qed

lemma mse_loss_InrD:
  assumes "mse_loss input target = Inr cl" "length input = B" "length target = B"
  shows "1 \<le> B \<and> cl = (\<Sum>i<B. (input ! i - target ! i)\<^sup>2) / real B"
proof -
  from assms obtain sq where sq: "sq = map2 (\<lambda>a b. (a - b)\<^sup>2) input target"
    and mu: "tensor_mean sq = Inr cl"
    by (auto simp: mse_loss_def bcast2_same split: sum.splits)
  have l: "length sq = B" using sq assms by simp
  from tensor_mean_InrD[OF mu] l have "1 \<le> B" "cl = sum_list sq / real B"
    by (auto simp: Suc_le_eq)
  moreover have "sum_list sq = (\<Sum>i<B. (input ! i - target ! i)\<^sup>2)"
    using sum_list_as_sum[OF l] sq assms by simp
  ultimately show ?thesis by simp
qed

text \<open>
  \<^bold>\<open>C3.\<close> On an aligned batch of \<open>B\<close> transitions that \<^verbatim>\<open>train_model\<close> accepts, with the
  log-probabilities \<open>new_log_prob\<close> of the actions under the current actor and the values
  \<open>V\<close> of the states under the current critic: the actor loss is minus the mean over the
  batch of the smaller of \<open>ratio * advantage\<close> and
  \<open>clip ratio (1 - EPS_CLIP) (1 + EPS_CLIP) * advantage\<close>, where
  \<open>ratio = exp (new_log_prob - old_log_prob)\<close>; the critic loss is the mean of the squares of
  \<open>td_target - V\<close>; the loss reported is their sum.
\<close>

theorem train_model_losses:
  assumes "train_model ag self batch_state batch_next_state batch_action batch_reward
             batch_log_prob batch_done pre = Inr (l, self')"
    and "length batch_state = B" and "length batch_action = B"
    and "length batch_log_prob = B"
    and "length (advantage pre) = B" and "length (td_target pre) = B"
    and "shape (data (weight (fc4 (module_of (critic self))))) = [1, 64]"
  shows "\<exists>new_log_prob V.
      1 \<le> B
    \<and> length new_log_prob = B \<and> length V = B
    \<and> (\<forall>i<B. \<exists>pi. Actor_forward (actor self) (batch_state ! i) = Inr pi
                    \<and> log_prob pi (batch_action ! i) = Inr (new_log_prob ! i))
    \<and> (\<forall>i<B. Critic_forward (critic self) (batch_state ! i) = Inr [V ! i])
    \<and> actor_loss l
        = - (\<Sum>i<B. min (exp (new_log_prob ! i - batch_log_prob ! i) * advantage pre ! i)
                       (min (max (exp (new_log_prob ! i - batch_log_prob ! i))
                                 (1 - EPS_CLIP (cfg self)))
                            (1 + EPS_CLIP (cfg self)) * advantage pre ! i)) / real B
    \<and> critic_loss l = (\<Sum>i<B. (td_target pre ! i - V ! i)\<^sup>2) / real B
    \<and> loss l = actor_loss l + critic_loss l"
proof -
  from assms(1) obtain rows al cl where
    rows: "batch_value_of (critic self) batch_state = Inr rows"
    and al: "actor_loss_of (cfg self) batch_state batch_action batch_log_prob (advantage pre)
               (actor self) = Inr al"
    and cl: "mse_loss (td_target pre) (concat rows) = Inr cl"
    and l: "l = \<lparr>loss = al + cl, critic_loss = cl, actor_loss = al\<rparr>"
    by (auto simp: train_model_def split: sum.splits)
  have "Critic_values (critic self) batch_state = Inr (concat rows)"
    using rows by (simp add: Critic_values_def batch_value_of_def)
  from Critic_values_width_one[OF this assms(7)] assms(2) have
    lv: "length (concat rows) = B"
    and cv: "\<forall>i<B. Critic_forward (critic self) (batch_state ! i) = Inr [concat rows ! i]"
    by auto
  from mse_loss_InrD[OF cl assms(6) lv] have
    c: "cl = (\<Sum>i<B. (td_target pre ! i - concat rows ! i)\<^sup>2) / real B" by simp
  from actor_loss_of_InrD[OF al assms(2-5)] obtain nlp where
    "1 \<le> B" "length nlp = B"
    "\<forall>i<B. \<exists>pi. Actor_forward (actor self) (batch_state ! i) = Inr pi
                    \<and> log_prob pi (batch_action ! i) = Inr (nlp ! i)"
    "al = - (\<Sum>i<B. min (exp (nlp ! i - batch_log_prob ! i) * advantage pre ! i)
                       (min (max (exp (nlp ! i - batch_log_prob ! i))
                                 (1 - EPS_CLIP (cfg self)))
                            (1 + EPS_CLIP (cfg self)) * advantage pre ! i)) / real B"
    by blast
  then show ?thesis using lv cv c l
    by (intro exI[of _ nlp] exI[of _ "concat rows"]) simp
qed

lemma Actor_forward_example:
  "length x = 1 \<Longrightarrow> Actor_forward (actor (example_container g l v)) x = Inr (Categorical [0, 0])"
  using fc_Actor_const[of x 1 2 0]
  by (simp add: Actor_forward_def example_container_def eval_nat_numeral)

lemma example_train_returns:
  "\<exists>l self'. train_model ag (example_container 0 0 0) [ [0], [0]] [ [0], [0]] [0, 1] [1, 3]
                 [0, 0] [0, 0] \<lparr>advantage = [1, -1], td_target = [1, 3]\<rparr> = Inr (l, self')"
  by (simp add: train_model_def batch_value_of_def Critic_forward_example actor_loss_of_def
      Actor_forward_example batch_log_prob_of_def bcast2_def log_prob_def Categorical_def
      tensor_mean_def mse_loss_def cfg_example)

theorem train_model_losses_witness:
  "length [ [0], [0 :: real]] = 2 \<and> length [0, 1 :: int] = 2 \<and> length [0, 0 :: real] = 2
   \<and> length (advantage \<lparr>advantage = [1, -1], td_target = [1, 3]\<rparr>) = 2
   \<and> length (td_target \<lparr>advantage = [1, -1], td_target = [1, 3]\<rparr>) = 2
   \<and> shape (data (weight (fc4 (module_of (critic (example_container 0 0 0)))))) = [1, 64]
   \<and> (\<exists>l self'.
         train_model (const_autograd 1) (example_container 0 0 0) [ [0], [0]] [ [0], [0]] [0, 1] [1, 3]
           [0, 0] [0, 0] \<lparr>advantage = [1, -1], td_target = [1, 3]\<rparr> = Inr (l, self')
       \<and> (\<exists>new_log_prob V.
             length new_log_prob = 2 \<and> length V = 2
           \<and> actor_loss l
               = - (\<Sum>i<2. min (exp (new_log_prob ! i - [0, 0] ! i) * [1, -1] ! i)
                       (min (max (exp (new_log_prob ! i - [0, 0] ! i))
                                 (1 - EPS_CLIP (cfg (example_container 0 0 0))))
                            (1 + EPS_CLIP (cfg (example_container 0 0 0))) * [1, -1] ! i)) / real 2
           \<and> critic_loss l = (\<Sum>i<2. ([1, 3] ! i - V ! i)\<^sup>2) / real 2
           \<and> loss l = actor_loss l + critic_loss l))"
proof -
  let ?pre = "\<lparr>advantage = [1, -1], td_target = [1, 3]\<rparr>"
  from example_train_returns obtain l self' where
    h: "train_model (const_autograd 1) (example_container 0 0 0) [ [0], [0]] [ [0], [0]] [0, 1] [1, 3]
          [0, 0] [0, 0] ?pre = Inr (l, self')"
    by blast
  have h2: "length [ [0], [0 :: real]] = 2" and h3: "length [0, 1 :: int] = 2"
    and h4: "length [0, 0 :: real] = 2" and h5: "length (advantage ?pre) = 2"
    and h6: "length (td_target ?pre) = 2"
    by simp_all
  from train_model_losses [OF h h2 h3 h4 h5 h6 example_critic_shape] h
  have "\<exists>l self'.
         train_model (const_autograd 1) (example_container 0 0 0) [ [0], [0]] [ [0], [0]] [0, 1] [1, 3]
           [0, 0] [0, 0] ?pre = Inr (l, self')
       \<and> (\<exists>new_log_prob V.
             length new_log_prob = 2 \<and> length V = 2
           \<and> actor_loss l
               = - (\<Sum>i<2. min (exp (new_log_prob ! i - [0, 0] ! i) * [1, -1] ! i)
                       (min (max (exp (new_log_prob ! i - [0, 0] ! i))
                                 (1 - EPS_CLIP (cfg (example_container 0 0 0))))
                            (1 + EPS_CLIP (cfg (example_container 0 0 0))) * [1, -1] ! i)) / real 2
           \<and> critic_loss l = (\<Sum>i<2. ([1, 3] ! i - V ! i)\<^sup>2) / real 2
           \<and> loss l = actor_loss l + critic_loss l)"
    by (simp del: sum.lessThan_Suc) blast
  then show ?thesis using h2 h3 h4 h5 h6 example_critic_shape by (intro conjI)
qed

subsection \<open>The two optimization steps\<close>

lemma parameters_zero_grad:
  "parameters (module_of (zero_grad n)) = map (\<lambda>p. p\<lparr>grad := None\<rparr>) (parameters (module_of n))"
  by (simp add: zero_grad_def module_of_map_module parameters_set_parameters length_parameters)

lemma fc_zero_grad: "fc (module_of (zero_grad n)) x = fc (module_of n) x"
  by (rule fc_data) (simp add: parameters_zero_grad comp_def)

lemma forward_stale:
  assumes "zero_grad n1 = zero_grad n2"
  shows "Critic_forward n1 = Critic_forward n2" and "Actor_forward n1 = Actor_forward n2"
proof -
  have "fc (module_of n1) x = fc (module_of n2) x" for x
    using fc_zero_grad[of n1 x] fc_zero_grad[of n2 x] assms by simp
  then show "Critic_forward n1 = Critic_forward n2" "Actor_forward n1 = Actor_forward n2"
    by (auto simp: Critic_forward_def Actor_forward_def fun_eq_iff)
qed

lemma update_actor_frame:
  "critic (update_actor ag f self) = critic self"
  "critic_optimizer (update_actor ag f self) = critic_optimizer self"
  "cfg (update_actor ag f self) = cfg self"
  "actor (update_actor ag f self)
     = snd (optimizer_step (actor_optimizer self) (backward ag f (zero_grad (actor self))))"
  "actor_optimizer (update_actor ag f self)
     = fst (optimizer_step (actor_optimizer self) (backward ag f (zero_grad (actor self))))"
  by (simp_all add: update_actor_def Let_def)

lemma update_critic_frame:
  "actor (update_critic ag f self) = actor self"
  "actor_optimizer (update_critic ag f self) = actor_optimizer self"
  "cfg (update_critic ag f self) = cfg self"
  "critic (update_critic ag f self)
     = snd (optimizer_step (critic_optimizer self) (backward ag f (zero_grad (critic self))))"
  "critic_optimizer (update_critic ag f self)
     = fst (optimizer_step (critic_optimizer self) (backward ag f (zero_grad (critic self))))"
  by (simp_all add: update_critic_def Let_def)

lemma train_model_stale:
  assumes "cfg other = cfg self"
    and "zero_grad (actor other) = zero_grad (actor self)"
    and "zero_grad (critic other) = zero_grad (critic self)"
    and "actor_optimizer other = actor_optimizer self"
    and "critic_optimizer other = critic_optimizer self"
  shows "train_model ag other bs bns ba br blp bd pre = train_model ag self bs bns ba br blp bd pre"
proof -
  have bv: "batch_value_of (critic other) bs = batch_value_of (critic self) bs"
    using forward_stale(1)[OF assms(3)] by (simp add: batch_value_of_def)
  have al: "actor_loss_of (cfg self) bs ba blp (advantage pre) (actor other)
      = actor_loss_of (cfg self) bs ba blp (advantage pre) (actor self)"
    using forward_stale(2)[OF assms(2)] by (simp add: actor_loss_of_def)
  have upd: "update_critic ag f2 (update_actor ag f1 other)
      = update_critic ag f2 (update_actor ag f1 self)" for f1 f2
    by (rule ModelWrapper.equality)
       (simp_all add: update_critic_frame update_actor_frame assms)
  show ?thesis unfolding train_model_def bv assms(1) al upd by (rule refl)
qed

text \<open>
  \<^bold>\<open>C6.\<close> A call of \<^verbatim>\<open>train_model\<close> that returns has updated the actor and then the critic.
  Each update clears the gradient buffers of its network, adds the gradient of its loss to
  them and makes one step of its optimizer. The update of the actor leaves the critic and the
  optimizer of the critic as they were, and the update of the critic leaves the actor and the
  optimizer of the actor as they were. What the gradient buffers held before the call has no
  influence: a container that differs only there gives the same result.
\<close>

theorem train_model_updates_isolated:
  assumes "train_model ag self batch_state batch_next_state batch_action batch_reward
             batch_log_prob batch_done pre = Inr (l, self')"
  shows "self' = update_critic ag (critic_loss_of batch_state (td_target pre))
                   (update_actor ag
                      (actor_loss_of (cfg self) batch_state batch_action batch_log_prob
                         (advantage pre)) self)
    \<and> actor self'
        = snd (optimizer_step (actor_optimizer self)
                 (backward ag
                    (actor_loss_of (cfg self) batch_state batch_action batch_log_prob
                       (advantage pre))
                    (zero_grad (actor self))))
    \<and> actor_optimizer self'
        = fst (optimizer_step (actor_optimizer self)
                 (backward ag
                    (actor_loss_of (cfg self) batch_state batch_action batch_log_prob
                       (advantage pre))
                    (zero_grad (actor self))))
    \<and> critic self'
        = snd (optimizer_step (critic_optimizer self)
                 (backward ag (critic_loss_of batch_state (td_target pre))
                    (zero_grad (critic self))))
    \<and> critic_optimizer self'
        = fst (optimizer_step (critic_optimizer self)
                 (backward ag (critic_loss_of batch_state (td_target pre))
                    (zero_grad (critic self))))
    \<and> cfg self' = cfg self
    \<and> (\<forall>f s. critic (update_actor ag f s) = critic s
              \<and> critic_optimizer (update_actor ag f s) = critic_optimizer s)
    \<and> (\<forall>f s. actor (update_critic ag f s) = actor s
              \<and> actor_optimizer (update_critic ag f s) = actor_optimizer s)
    \<and> (\<forall>other.
          cfg other = cfg self
        \<and> zero_grad (actor other) = zero_grad (actor self)
        \<and> zero_grad (critic other) = zero_grad (critic self)
        \<and> actor_optimizer other = actor_optimizer self
        \<and> critic_optimizer other = critic_optimizer self
        \<longrightarrow> train_model ag other batch_state batch_next_state batch_action batch_reward
              batch_log_prob batch_done pre = Inr (l, self'))"
proof -
  have s: "self' = update_critic ag (critic_loss_of batch_state (td_target pre))
                   (update_actor ag
                      (actor_loss_of (cfg self) batch_state batch_action batch_log_prob
                         (advantage pre)) self)"
    using assms by (auto simp: train_model_def split: sum.splits)
  have st: "train_model ag other batch_state batch_next_state batch_action batch_reward
              batch_log_prob batch_done pre = Inr (l, self')"
    if "cfg other = cfg self \<and> zero_grad (actor other) = zero_grad (actor self)
        \<and> zero_grad (critic other) = zero_grad (critic self)
        \<and> actor_optimizer other = actor_optimizer self
        \<and> critic_optimizer other = critic_optimizer self" for other
    using train_model_stale[of other self ag] that assms by simp
  show ?thesis
    unfolding s[symmetric]
    using st by (simp add: s update_critic_frame update_actor_frame)
qed

lemma set_parameters_cong:
  "length ps = 6 \<Longrightarrow> set_parameters m ps = set_parameters m' ps"
  by (auto simp: length_Suc_conv eval_nat_numeral set_parameters_def)

lemma zero_grad_backward: "zero_grad (backward (const_autograd g) f n) = zero_grad n"
proof -
  have "map_module (\<lambda>m. set_parameters m (map (\<lambda>p. p\<lparr>grad := None\<rparr>) (parameters m)))
          (map_module h n')
      = map_module (\<lambda>m. set_parameters m (map (\<lambda>p. p\<lparr>grad := None\<rparr>) (parameters m))) n'"
    if h: "\<And>m. map (\<lambda>p. p\<lparr>grad := None\<rparr>) (parameters (h m))
                 = map (\<lambda>p. p\<lparr>grad := None\<rparr>) (parameters m)" for h n'
  proof (induction n')
    case (Module m)
    have "set_parameters (h m) (map (\<lambda>p. p\<lparr>grad := None\<rparr>) (parameters m))
        = set_parameters m (map (\<lambda>p. p\<lparr>grad := None\<rparr>) (parameters m))"
      by (rule set_parameters_cong) (simp add: length_parameters)
    then show ?case by (simp add: h)
  next
    case (DistributedDataParallel n')
    then show ?case by simp
  qed
  moreover have "map (\<lambda>p. p\<lparr>grad := None\<rparr>)
          (parameters (set_parameters m
             (map accumulate (zip (parameters m) (const_autograd g F m)))))
      = map (\<lambda>p. p\<lparr>grad := None\<rparr>) (parameters m)" for m F
    by (simp add: parameters_set_parameters length_parameters const_autograd_def
        accumulate_def zip_map2 comp_def case_prod_beta zip_same_conv_map)
  ultimately show ?thesis
    unfolding zero_grad_def backward_def by simp
qed

lemma example_stale_differs:
  "backward (const_autograd 1) (\<lambda>_. Inr 0) (actor (example_container 0 0 0))
     \<noteq> actor (example_container 0 0 0)"
  by (simp add: backward_def const_autograd_def example_actor Actor_def Linear_def
      parameters_def set_parameters_def accumulate_def)

theorem train_model_updates_isolated_witness:
  "\<exists>l self'.
      train_model (const_autograd 1) (example_container 0 0 0) [ [0], [0]] [ [0], [0]] [0, 1] [1, 3]
        [0, 0] [0, 0] \<lparr>advantage = [1, -1], td_target = [1, 3]\<rparr> = Inr (l, self')
    \<and> cfg ((example_container 0 0 0)
              \<lparr>actor := backward (const_autograd 1) (\<lambda>_. Inr 0) (actor (example_container 0 0 0))\<rparr>)
        = cfg (example_container 0 0 0)
    \<and> zero_grad (actor ((example_container 0 0 0)
              \<lparr>actor := backward (const_autograd 1) (\<lambda>_. Inr 0) (actor (example_container 0 0 0))\<rparr>))
        = zero_grad (actor (example_container 0 0 0))
    \<and> actor ((example_container 0 0 0)
              \<lparr>actor := backward (const_autograd 1) (\<lambda>_. Inr 0) (actor (example_container 0 0 0))\<rparr>)
        \<noteq> actor (example_container 0 0 0)
    \<and> cfg self' = cfg (example_container 0 0 0)
    \<and> critic (update_actor (const_autograd 1)
                 (actor_loss_of (cfg (example_container 0 0 0)) [ [0], [0]] [0, 1] [0, 0] [1, -1])
                 (example_container 0 0 0))
        = critic (example_container 0 0 0)
    \<and> train_model (const_autograd 1)
        ((example_container 0 0 0)
           \<lparr>actor := backward (const_autograd 1) (\<lambda>_. Inr 0) (actor (example_container 0 0 0))\<rparr>)
        [ [0], [0]] [ [0], [0]] [0, 1] [1, 3] [0, 0] [0, 0]
        \<lparr>advantage = [1, -1], td_target = [1, 3]\<rparr> = Inr (l, self')"
proof -
  let ?ex = "example_container 0 0 0"
  let ?other = "?ex\<lparr>actor := backward (const_autograd 1) (\<lambda>_. Inr 0) (actor ?ex)\<rparr>"
  let ?pre = "\<lparr>advantage = [1, -1], td_target = [1, 3]\<rparr>"
  from example_train_returns obtain l self' where
    h: "train_model (const_autograd 1) ?ex [ [0], [0]] [ [0], [0]] [0, 1] [1, 3] [0, 0] [0, 0] ?pre
          = Inr (l, self')"
    by blast
  have o: "cfg ?other = cfg ?ex" "zero_grad (actor ?other) = zero_grad (actor ?ex)"
    "zero_grad (critic ?other) = zero_grad (critic ?ex)"
    "actor_optimizer ?other = actor_optimizer ?ex"
    "critic_optimizer ?other = critic_optimizer ?ex"
    by (simp_all add: zero_grad_backward)
  from train_model_updates_isolated [OF h] o
  have "cfg self' = cfg ?ex"
    and "critic (update_actor (const_autograd 1)
                 (actor_loss_of (cfg ?ex) [ [0], [0]] [0, 1] [0, 0] [1, -1]) ?ex) = critic ?ex"
    and "train_model (const_autograd 1) ?other [ [0], [0]] [ [0], [0]] [0, 1] [1, 3] [0, 0] [0, 0]
           ?pre = Inr (l, self')"
    by blast+
  moreover have "actor ?other \<noteq> actor ?ex" using example_stale_differs by simp
  ultimately show ?thesis using h o by blast
qed

subsection \<open>The gradient buffers after a backward pass on cleared buffers\<close>

lemma parameters_backward:
  assumes "length (ag (\<lambda>m'. case f (map_module (\<lambda>_. m') n) of Inl _ \<Rightarrow> 0 | Inr l \<Rightarrow> l)
                     (module_of n)) = 6"
  shows "parameters (module_of (backward ag f n))
     = map accumulate
         (zip (parameters (module_of n))
            (ag (\<lambda>m'. case f (map_module (\<lambda>_. m') n) of Inl _ \<Rightarrow> 0 | Inr l \<Rightarrow> l)
               (module_of n)))"
  using assms
  by (simp add: backward_def module_of_map_module parameters_set_parameters length_parameters)

lemma gradients_after_cleared_backward:
  assumes "length (ag (\<lambda>m'. case f (map_module (\<lambda>_. m') (zero_grad n)) of
                              Inl _ \<Rightarrow> 0 | Inr l \<Rightarrow> l)
                     (module_of (zero_grad n))) = 6"
  shows "map grad (parameters (module_of (backward ag f (zero_grad n))))
     = map Some (ag (\<lambda>m'. case f (map_module (\<lambda>_. m') (zero_grad n)) of
                              Inl _ \<Rightarrow> 0 | Inr l \<Rightarrow> l)
                   (module_of (zero_grad n)))"
proof -
  let ?g = "ag (\<lambda>m'. case f (map_module (\<lambda>_. m') (zero_grad n)) of Inl _ \<Rightarrow> 0 | Inr l \<Rightarrow> l)
              (module_of (zero_grad n))"
  have "map grad (map accumulate (zip (parameters (module_of (zero_grad n))) ?g)) = map Some ?g"
    by (rule nth_equalityI)
       (simp_all add: assms length_parameters parameters_zero_grad accumulate_def)
  then show ?thesis using assms by (simp add: parameters_backward)
qed

section \<open>The networks of a container stay raw modules\<close>

text \<open>The constructor builds raw modules, and \<^verbatim>\<open>load_model\<close> and \<^verbatim>\<open>train_model\<close> keep them
  raw: no function of the container wraps its networks.\<close>

lemma map_module_raw: "\<exists>m. n = Module m \<Longrightarrow> \<exists>m'. map_module f n = Module m'"
  by auto

lemma load_state_dict_raw: "\<exists>m. n = Module m \<Longrightarrow> \<exists>m'. snd (load_state_dict n sd) = Module m'"
  by (auto simp: load_state_dict_def)

lemma load_model_raw:
  assumes "load_model self path w = (e, self', w')"
    and "\<exists>m. actor self = Module m" and "\<exists>m. critic self = Module m"
  shows "(\<exists>m. actor self' = Module m) \<and> (\<exists>m. critic self' = Module m)"
  using assms
  by (auto simp: load_model_def load_state_dict_def split: option.splits if_splits)

lemma ModelWrapper_init_raw:
  assumes "ModelWrapper_init actor_init critic_init path rate c w = Inr (self, w')"
  shows "(\<exists>m. actor self = Module m) \<and> (\<exists>m. critic self = Module m)"
proof -
  let ?self = "\<lparr>cfg = c, actor = Module (Actor (NUM_STATE c) (NUM_ACTION c) actor_init),
                 critic = Module (Critic (NUM_STATE c) critic_init),
                 actor_optimizer = Adam [] rate, critic_optimizer = Adam [] rate\<rparr>"
  obtain e s w'' where l: "load_model ?self path w = (e, s, w'')" by (metis prod_cases3)
  from load_model_raw[OF l] have "(\<exists>m. actor s = Module m) \<and> (\<exists>m. critic s = Module m)"
    by simp
  then show ?thesis using assms l
    by (auto simp: ModelWrapper_init_def split: option.splits)
qed

lemma train_model_raw:
  assumes "train_model ag self bs bns ba br blp bd pre = Inr (l, self')"
    and "\<exists>m. actor self = Module m" and "\<exists>m. critic self = Module m"
  shows "(\<exists>m. actor self' = Module m) \<and> (\<exists>m. critic self' = Module m)"
proof -
  have raw: "\<exists>m'. snd (optimizer_step opt (backward ag f (zero_grad n))) = Module m'"
    if "\<exists>m. n = Module m" for opt f n
    using that by (auto simp: optimizer_step_def backward_def zero_grad_def)
  have "self' = update_critic ag (critic_loss_of bs (td_target pre))
                  (update_actor ag (actor_loss_of (cfg self) bs ba blp (advantage pre)) self)"
    using assms(1) by (auto simp: train_model_def split: sum.splits)
  then show ?thesis
    using raw[OF assms(2)] raw[OF assms(3)]
    by (simp add: update_critic_frame update_actor_frame)
qed

end
